theory Spec2Isabelle
  imports Main "HOL-Library.Word"
begin

unbundle bit_operations_syntax

section \<open>Machine types and outcomes\<close>

text \<open>
  The reader \<^verbatim>\<open>elf::elf_file\<close> of \<^verbatim>\<open>elf.hpp\<close> is modelled for an x86-64 System V
  host (little endian, LP64): \<^verbatim>\<open>std::size_t\<close>, \<^verbatim>\<open>std::uintptr_t\<close>,
  \<^verbatim>\<open>std::streamoff\<close>, \<^verbatim>\<open>std::streamsize\<close> and \<^verbatim>\<open>uint_fast32_t\<close> are 64 bits wide,
  structures have their natural alignment.  The source assumes that the file has the
  byte order of the host.
\<close>

type_synonym byte = "8 word"
type_synonym u16 = "16 word"
type_synonym u32 = "32 word"
type_synonym u64 = "64 word"

text \<open>
  A C++ call either returns, or leaves by a \<^verbatim>\<open>std::out_of_range\<close> exception (thrown by
  \<^verbatim>\<open>std::vector::at\<close>), or has undefined behaviour (an iterator moved outside its
  vector, an unchecked index outside a vector, a \<^verbatim>\<open>char\<close> pointer read outside the
  buffer it points into, a shift by at least the width of the operand).
\<close>

datatype 'a outcome = Returns 'a | Throws_out_of_range | Undefined_behaviour

definition at_vec :: "'a list \<Rightarrow> nat \<Rightarrow> 'a outcome" where
  \<comment> \<open>\<^verbatim>\<open>std::vector::at\<close>\<close>
  "at_vec xs i = (if i < length xs then Returns (xs ! i) else Throws_out_of_range)"

section \<open>The bitness-agnostic structures\<close>

record elf_ident =
  ei_magic :: "byte list"
  ei_class :: byte
  ei_data :: byte
  ei_version :: byte
  ei_osabi :: byte
  ei_abiversion :: byte
  ei_pad :: "byte list"

definition ELFMAG :: "byte list" where
  "ELFMAG = [0x7f, 0x45, 0x4c, 0x46]"

definition ELFCLASS32 :: byte where "ELFCLASS32 = 1"
definition ELFCLASS64 :: byte where "ELFCLASS64 = 2"

record elf_header =
  e_ident :: elf_ident
  e_type :: u16
  e_machine :: u16
  e_version :: u32
  e_entry :: u64
  e_phoff :: u64
  e_shoff :: u64
  e_flags :: u32
  e_ehsize :: u16
  e_phentsize :: u16
  e_phnum :: u16
  e_shentsize :: u16
  e_shnum :: u16
  e_shstrndx :: u16

text \<open>
  A \<^verbatim>\<open>const char *\<close> member that the reader only ever sets to
  \<^verbatim>\<open>buffer.data() + offset\<close> is modelled by that offset; \<open>None\<close> is the null pointer
  left by value-initialisation.
\<close>

record elf_section_header =
  sh_name :: u32
  sh_type :: u32
  sh_flags :: u64
  sh_addr :: u64
  sh_offset :: u64
  sh_size :: u64
  sh_link :: u32
  sh_info :: u32
  sh_addralign :: u64
  sh_entsize :: u64
  sh_name_str :: "nat option"

definition SHN_XINDEX :: u32 where "SHN_XINDEX = 0xffff"
definition SHT_RELA :: u32 where "SHT_RELA = 4"
definition SHT_HASH :: u32 where "SHT_HASH = 5"
definition SHT_REL :: u32 where "SHT_REL = 9"
definition SHT_DYNSYM :: u32 where "SHT_DYNSYM = 11"
definition SHT_GNU_HASH :: u32 where "SHT_GNU_HASH = 0x6ffffff6"

record elf_program_header =
  p_type :: u32
  p_flags :: u32
  p_offset :: u64
  p_vaddr :: u64
  p_paddr :: u64
  p_filesz :: u64
  p_memsz :: u64
  p_align :: u64

definition PT_LOAD :: u32 where "PT_LOAD = 1"
definition PT_DYNAMIC :: u32 where "PT_DYNAMIC = 2"

record elf_symbol =
  st_name :: u32
  st_value :: u64
  st_size :: u64
  st_info :: byte
  st_other :: byte
  st_shndx :: u16
  st_name_str :: "nat option"

definition STN_UNDEF :: u32 where "STN_UNDEF = 0"

text \<open>
  \<open>d_tag\<close> is a \<^verbatim>\<open>std::int64_t\<close>, kept as its 64 bits; \<open>d_un\<close> is the union of
  \<^verbatim>\<open>d_val\<close> and \<^verbatim>\<open>d_ptr\<close>, both 64 bits wide.
\<close>

record elf_dynamic =
  d_tag :: u64
  d_un :: u64

definition DT_NEEDED :: u64 where "DT_NEEDED = 1"
definition DT_STRTAB :: u64 where "DT_STRTAB = 5"
definition DT_SYMTAB :: u64 where "DT_SYMTAB = 6"
definition DT_STRSZ :: u64 where "DT_STRSZ = 10"
definition DT_SYMENT :: u64 where "DT_SYMENT = 11"
definition DT_SONAME :: u64 where "DT_SONAME = 14"

record elf_rel =
  r_offset :: u64
  r_type :: u32
  r_sym :: u32

record elf_rela =
  ra_offset :: u64
  ra_type :: u32
  ra_sym :: u32
  ra_addend :: u64

section \<open>The input stream\<close>

text \<open>
  \<^verbatim>\<open>std::ifstream binary_file\<close>: the bytes of the file, whether it is open, the
  \<^verbatim>\<open>failbit\<close>, and the read position.  \<open>stream_reads\<close> is a ghost log with one entry
  (position, requested count) for every call of \<^verbatim>\<open>read\<close>.
\<close>

record ifstream =
  stream_bytes :: "byte list"
  stream_open :: bool
  stream_fail :: bool
  stream_pos :: nat
  stream_reads :: "(nat \<times> nat) list"

definition stream_clear :: "ifstream \<Rightarrow> ifstream" where
  "stream_clear s = s\<lparr>stream_fail := False\<rparr>"

definition seekg :: "u64 \<Rightarrow> ifstream \<Rightarrow> ifstream" where
  \<comment> \<open>the argument is cast to the signed \<^verbatim>\<open>std::streamoff\<close>: a negative position fails\<close>
  "seekg off s =
     (if stream_fail s then s
      else if 0x8000000000000000 \<le> off then s\<lparr>stream_fail := True\<rparr>
      else s\<lparr>stream_pos := unat off\<rparr>)"

definition stream_read :: "u64 \<Rightarrow> ifstream \<Rightarrow> byte list \<times> ifstream" where
  \<comment> \<open>the bytes extracted (\<^verbatim>\<open>gcount()\<close> is their number) and the stream afterwards;
      the count is cast to the signed \<^verbatim>\<open>std::streamsize\<close>: nothing is extracted for a
      negative one\<close>
  "stream_read n s =
     (let s1 = s\<lparr>stream_reads := stream_reads s @ [(stream_pos s, unat n)]\<rparr> in
      if stream_fail s then ([], s1)
      else if 0x8000000000000000 \<le> n then ([], s1\<lparr>stream_fail := True\<rparr>)
      else let bs = take (unat n) (drop (stream_pos s) (stream_bytes s)) in
        (bs, s1\<lparr>stream_pos := stream_pos s + length bs,
               stream_fail := (length bs \<noteq> unat n)\<rparr>))"

section \<open>The reader object\<close>

text \<open>
  The private members of \<^verbatim>\<open>elf_file\<close>.  \<open>so_name\<close> and \<open>needed_libraries\<close> hold
  pointer values as 64-bit integers, because the source does integer arithmetic on
  them.
\<close>

record elf_file =
  binary_file :: ifstream
  last_error :: string
  header :: elf_header
  program_headers :: "elf_program_header list"
  section_headers :: "elf_section_header list"
  section_header_string_table :: "byte list"
  dynamic_entries :: "elf_dynamic list"
  dynamic_segment_string_table :: "byte list"
  so_name :: u64
  needed_libraries :: "u64 list"
  dynamic_symbols :: "elf_symbol list"
  init_functions :: "u64 list"
  fini_functions :: "u64 list"
  base_address :: u64
  hash_buckets :: "u32 list"
  hash_chains :: "u32 list"
  gnu_hash_buckets :: "u32 list"
  gnu_hash_values :: "u32 list"
  gnu_hash_bloom_shift :: u32
  gnu_hash_omitted_symbols_count :: u32
  gnu_hash_bloom_words :: "u64 list"
  plt_rel_entries :: "elf_rel list"
  dyn_rel_entries :: "elf_rel list"
  plt_rela_entries :: "elf_rela list"
  dyn_rela_entries :: "elf_rela list"

definition is_64_bit :: "elf_file \<Rightarrow> bool" where
  "is_64_bit st = (ei_class (e_ident (header st)) = ELFCLASS64)"

definition is_32_bit :: "elf_file \<Rightarrow> bool" where
  "is_32_bit st = (ei_class (e_ident (header st)) = ELFCLASS32)"

definition error :: "elf_file \<Rightarrow> bool" where
  "error st = (last_error st \<noteq> [])"

definition get_base_address :: "elf_file \<Rightarrow> u64" where
  "get_base_address st = base_address st"

section \<open>C strings and the two hash functions\<close>

text \<open>
  \<^verbatim>\<open>std::strcmp(buf.data() + off, name) == 0\<close>, where \<open>name\<close> lists the bytes of the
  looked-up C string (a zero byte in the list ends it).  The comparison reads the buffer
  byte by byte up to the first difference or the terminator; \<open>None\<close> when it has to read
  outside the buffer.
\<close>

fun c_str_eq :: "byte list \<Rightarrow> nat \<Rightarrow> byte list \<Rightarrow> bool option" where
  "c_str_eq buf off [] = (if off < length buf then Some (buf ! off = 0) else None)"
| "c_str_eq buf off (c # cs) =
     (if off < length buf then
        (if c = 0 then Some (buf ! off = 0)
         else if buf ! off = c then c_str_eq buf (Suc off) cs
         else Some False)
      else None)"

definition c_chars :: "byte list \<Rightarrow> byte list" where
  "c_chars name = takeWhile (\<lambda>c. c \<noteq> 0) name"



definition gnu_hash :: "byte list \<Rightarrow> u64" where
  "gnu_hash s = foldl (\<lambda>h c. h * 33 + ucast c) 5381 (c_chars s) AND 0xffffffff"

section \<open>Symbol lookup\<close>

text \<open>
  A lookup returns a \<^verbatim>\<open>const_iterator\<close> into \<open>dynamic_symbols\<close>: \<open>Some i\<close> is the
  iterator at index \<open>i\<close>, \<open>None\<close> is \<^verbatim>\<open>cend()\<close>.
\<close>

definition name_matches :: "elf_file \<Rightarrow> elf_symbol \<Rightarrow> byte list \<Rightarrow> bool option" where
  \<comment> \<open>\<^verbatim>\<open>std::strcmp(symbol->st_name_str, name) == 0\<close>\<close>
  "name_matches st symb name =
     (case st_name_str symb of
        None \<Rightarrow> None
      | Some off \<Rightarrow> c_str_eq (dynamic_segment_string_table st) off name)"

subsection \<open>The legacy hash table\<close>



subsection \<open>The GNU hash table\<close>

text \<open>
  What the chain walk of \<^verbatim>\<open>lookup_gnu_symbol\<close> does is recorded next to its result:
  \<open>Hash_checked i\<close> for every iteration of the \<^verbatim>\<open>for\<close> loop (at symbol index \<open>i\<close>),
  \<open>Name_compared i\<close> for every call of \<^verbatim>\<open>strcmp\<close>.
\<close>

datatype probe = Hash_checked nat | Name_compared nat

fun gnu_chain_walk ::
  "elf_file \<Rightarrow> byte list \<Rightarrow> u32 \<Rightarrow> nat \<Rightarrow> elf_symbol list \<Rightarrow> u32 list
     \<Rightarrow> nat option outcome \<times> probe list" where
  "gnu_chain_walk st name hash1 i [] vs = (Returns None, [])"
| "gnu_chain_walk st name hash1 i (symb # syms) [] = (Returns None, [])"
| "gnu_chain_walk st name hash1 i (symb # syms) (hash2 # vs) =
     (if hash1 \<noteq> (hash2 AND NOT 1) then
        (case gnu_chain_walk st name hash1 (Suc i) syms vs of
           (r, ps) \<Rightarrow> (r, Hash_checked i # ps))
      else
        (case name_matches st symb name of
           None \<Rightarrow> (Undefined_behaviour, [Hash_checked i, Name_compared i])
         | Some True \<Rightarrow> (Returns (Some i), [Hash_checked i, Name_compared i])
         | Some False \<Rightarrow>
             if hash2 AND 1 \<noteq> 0 then (Returns None, [Hash_checked i, Name_compared i])
             else (case gnu_chain_walk st name hash1 (Suc i) syms vs of
                     (r, ps) \<Rightarrow> (r, Hash_checked i # Name_compared i # ps))))"

text \<open>
  The part of \<^verbatim>\<open>lookup_gnu_symbol\<close> before the loop.  \<open>hash1\<close> and \<open>hash2\<close> are
  \<^verbatim>\<open>std::uint32_t\<close>; \<open>start_idx\<close> is a \<^verbatim>\<open>std::size_t\<close>, and
  \<^verbatim>\<open>start_idx - gnu_hash_omitted_symbols_count\<close> wraps around to a negative
  \<^verbatim>\<open>difference_type\<close> when the count is the larger one.
\<close>

definition gnu_bloom_index :: "elf_file \<Rightarrow> u32 \<Rightarrow> nat" where
  "gnu_bloom_index st hash1 =
     unat ((ucast hash1 div 64) AND (word_of_nat (length (gnu_hash_bloom_words st)) - 1 :: u64))"

definition gnu_bloom_bitmask :: "elf_file \<Rightarrow> u32 \<Rightarrow> u64" where
  "gnu_bloom_bitmask st hash1 =
     (let hash2 = drop_bit (unat (gnu_hash_bloom_shift st)) hash1
      in push_bit (unat hash1 mod 64) 1 OR push_bit (unat hash2 mod 64) 1)"

definition lookup_gnu_symbol_probes ::
  "elf_file \<Rightarrow> byte list \<Rightarrow> nat option outcome \<times> probe list" where
  "lookup_gnu_symbol_probes st name =
     (if gnu_hash_buckets st = [] then (Returns None, [])
      else let hash1 = (ucast (gnu_hash name) :: u32) in
        if 32 \<le> unat (gnu_hash_bloom_shift st) then (Undefined_behaviour, [])
        else
          (case at_vec (gnu_hash_bloom_words st) (gnu_bloom_index st hash1) of
             Throws_out_of_range \<Rightarrow> (Throws_out_of_range, [])
           | Undefined_behaviour \<Rightarrow> (Undefined_behaviour, [])
           | Returns bloom_word \<Rightarrow>
               if bloom_word AND gnu_bloom_bitmask st hash1 \<noteq> gnu_bloom_bitmask st hash1
               then (Returns None, [])
               else
                 (case at_vec (gnu_hash_buckets st)
                         (unat hash1 mod length (gnu_hash_buckets st)) of
                    Throws_out_of_range \<Rightarrow> (Throws_out_of_range, [])
                  | Undefined_behaviour \<Rightarrow> (Undefined_behaviour, [])
                  | Returns bucket \<Rightarrow>
                      let start_idx = unat bucket;
                          omitted = unat (gnu_hash_omitted_symbols_count st) in
                      if bucket = STN_UNDEF then (Returns None, [])
                      else if length (dynamic_symbols st) < start_idx
                        then (Undefined_behaviour, [])
                      else if start_idx < omitted
                              \<or> length (gnu_hash_values st) < start_idx - omitted
                        then (Undefined_behaviour, [])
                      else gnu_chain_walk st name (hash1 AND NOT 1) start_idx
                             (drop start_idx (dynamic_symbols st))
                             (drop (start_idx - omitted) (gnu_hash_values st)))))"

definition lookup_gnu_symbol :: "elf_file \<Rightarrow> byte list \<Rightarrow> nat option outcome" where
  "lookup_gnu_symbol st name = fst (lookup_gnu_symbol_probes st name)"


section \<open>Construction\<close>

text \<open>
  The object when the body of the constructor starts: every member has its default
  member initialiser (\<^verbatim>\<open>header{0}\<close>, null pointers, zero counters, empty vectors)
  and the stream is closed.
\<close>

definition zero_ident :: elf_ident where
  "zero_ident = \<lparr>ei_magic = [0, 0, 0, 0], ei_class = 0, ei_data = 0, ei_version = 0,
     ei_osabi = 0, ei_abiversion = 0, ei_pad = [0, 0, 0, 0, 0, 0, 0]\<rparr>"

definition zero_header :: elf_header where
  "zero_header = \<lparr>e_ident = zero_ident, e_type = 0, e_machine = 0, e_version = 0,
     e_entry = 0, e_phoff = 0, e_shoff = 0, e_flags = 0, e_ehsize = 0, e_phentsize = 0,
     e_phnum = 0, e_shentsize = 0, e_shnum = 0, e_shstrndx = 0\<rparr>"

definition closed_stream :: ifstream where
  "closed_stream = \<lparr>stream_bytes = [], stream_open = False, stream_fail = False,
     stream_pos = 0, stream_reads = []\<rparr>"

definition new_elf_file :: elf_file where
  "new_elf_file = \<lparr>binary_file = closed_stream, last_error = [], header = zero_header,
     program_headers = [], section_headers = [], section_header_string_table = [],
     dynamic_entries = [], dynamic_segment_string_table = [], so_name = 0,
     needed_libraries = [], dynamic_symbols = [], init_functions = [],
     fini_functions = [], base_address = 0, hash_buckets = [], hash_chains = [],
     gnu_hash_buckets = [], gnu_hash_values = [], gnu_hash_bloom_shift = 0,
     gnu_hash_omitted_symbols_count = 0, gnu_hash_bloom_words = [],
     plt_rel_entries = [], dyn_rel_entries = [], plt_rela_entries = [],
     dyn_rela_entries = []\<rparr>"

section \<open>Structures read from bytes\<close>

text \<open>
  A block of memory that \<^verbatim>\<open>read\<close> fills is a list of bytes; a field of a structure
  is the little-endian value of the bytes at its offset.  A destination of \<open>n\<close>
  value-initialised bytes into which only the bytes \<open>bs\<close> were read holds \<open>pad n bs\<close>.
  Allocation is taken to succeed: \<^verbatim>\<open>std::length_error\<close> and \<^verbatim>\<open>std::bad_alloc\<close> out of
  \<^verbatim>\<open>resize\<close> are not part of the model.
\<close>

fun le_word :: "byte list \<Rightarrow> 'a::len word" where
  "le_word [] = 0"
| "le_word (b # bs) = ucast b OR push_bit 8 (le_word bs)"

definition field :: "nat \<Rightarrow> nat \<Rightarrow> byte list \<Rightarrow> 'a::len word" where
  "field off n bs = le_word (take n (drop off bs))"

definition pad :: "nat \<Rightarrow> byte list \<Rightarrow> byte list" where
  "pad n bs = bs @ replicate (n - length bs) 0"

definition chunks :: "nat \<Rightarrow> nat \<Rightarrow> byte list \<Rightarrow> byte list list" where
  \<comment> \<open>the first \<open>count\<close> array elements of \<open>width\<close> bytes each\<close>
  "chunks width count bs = map (\<lambda>i. take width (drop (i * width) bs)) [0..<count]"

definition resize_vec :: "nat \<Rightarrow> 'a \<Rightarrow> 'a list \<Rightarrow> 'a list" where
  \<comment> \<open>\<^verbatim>\<open>std::vector::resize\<close>, new elements value-initialised to \<open>z\<close>\<close>
  "resize_vec n z xs = take n xs @ replicate (n - length xs) z"

definition c_str :: "string \<Rightarrow> byte list" where
  "c_str s = map of_char s"

subsection \<open>File header\<close>

definition read_ident :: "byte list \<Rightarrow> elf_ident" where
  "read_ident bs =
     \<lparr>ei_magic = take 4 bs, ei_class = field 4 1 bs, ei_data = field 5 1 bs,
      ei_version = field 6 1 bs, ei_osabi = field 7 1 bs, ei_abiversion = field 8 1 bs,
      ei_pad = take 7 (drop 9 bs)\<rparr>"

text \<open>\<^verbatim>\<open>elf_header\<close> has the layout of \<^verbatim>\<open>Elf64_Ehdr\<close> (64 bytes).\<close>

definition read_header :: "byte list \<Rightarrow> elf_header" where
  "read_header bs =
     \<lparr>e_ident = read_ident (take 16 bs), e_type = field 16 2 bs, e_machine = field 18 2 bs,
      e_version = field 20 4 bs, e_entry = field 24 8 bs, e_phoff = field 32 8 bs,
      e_shoff = field 40 8 bs, e_flags = field 48 4 bs, e_ehsize = field 52 2 bs,
      e_phentsize = field 54 2 bs, e_phnum = field 56 2 bs, e_shentsize = field 58 2 bs,
      e_shnum = field 60 2 bs, e_shstrndx = field 62 2 bs\<rparr>"

text \<open>
  The assignments from an \<^verbatim>\<open>Elf32_Ehdr real_header\<close> (52 bytes: the identification,
  then \<open>e_type\<close> at 16, \<open>e_machine\<close> at 18, \<open>e_version\<close> at 20, \<open>e_entry\<close> at 24,
  \<open>e_phoff\<close> at 28, \<open>e_shoff\<close> at 32, \<open>e_flags\<close> at 36, and six half words from 40).
  The identification is not assigned.
\<close>

definition copy_Elf32_Ehdr :: "byte list \<Rightarrow> elf_header \<Rightarrow> elf_header" where
  "copy_Elf32_Ehdr real_header hdr =
     hdr\<lparr>e_type := field 16 2 real_header,
         e_machine := field 18 2 real_header,
         e_version := field 20 4 real_header,
         e_entry := ucast (field 24 4 real_header :: u32),
         e_phoff := ucast (field 28 4 real_header :: u32),
         e_shoff := ucast (field 32 4 real_header :: u32),
         e_flags := field 36 4 real_header,
         e_ehsize := field 40 2 real_header,
         e_phentsize := field 42 2 real_header,
         e_phnum := field 44 2 real_header,
         e_shentsize := field 46 2 real_header,
         e_shnum := field 48 2 real_header,
         e_shstrndx := field 50 2 real_header\<rparr>"

subsection \<open>Program headers\<close>

text \<open>\<^verbatim>\<open>elf_program_header\<close> has the layout of \<^verbatim>\<open>Elf64_Phdr\<close> (56 bytes).\<close>

definition read_program_header :: "byte list \<Rightarrow> elf_program_header" where
  "read_program_header bs =
     \<lparr>p_type = field 0 4 bs, p_flags = field 4 4 bs, p_offset = field 8 8 bs,
      p_vaddr = field 16 8 bs, p_paddr = field 24 8 bs, p_filesz = field 32 8 bs,
      p_memsz = field 40 8 bs, p_align = field 48 8 bs\<rparr>"

text \<open>
  \<^verbatim>\<open>Elf32_Phdr\<close> (32 bytes): \<open>p_type\<close>, \<open>p_offset\<close>, \<open>p_vaddr\<close>, \<open>p_paddr\<close>,
  \<open>p_filesz\<close>, \<open>p_memsz\<close>, \<open>p_flags\<close>, \<open>p_align\<close>, four bytes each; every member of
  the program header is assigned.
\<close>

definition copy_Elf32_Phdr :: "byte list \<Rightarrow> elf_program_header" where
  "copy_Elf32_Phdr real =
     \<lparr>p_type = field 0 4 real,
      p_flags = field 24 4 real,
      p_offset = ucast (field 4 4 real :: u32),
      p_vaddr = ucast (field 8 4 real :: u32),
      p_paddr = ucast (field 12 4 real :: u32),
      p_filesz = ucast (field 16 4 real :: u32),
      p_memsz = ucast (field 20 4 real :: u32),
      p_align = ucast (field 28 4 real :: u32)\<rparr>"

definition zero_program_header :: elf_program_header where
  "zero_program_header = \<lparr>p_type = 0, p_flags = 0, p_offset = 0, p_vaddr = 0, p_paddr = 0,
     p_filesz = 0, p_memsz = 0, p_align = 0\<rparr>"

subsection \<open>Section headers\<close>

text \<open>
  The first 64 bytes of \<^verbatim>\<open>elf_section_header\<close> have the layout of \<^verbatim>\<open>Elf64_Shdr\<close>;
  \<open>sh_name_str\<close> follows them and is not touched by a read of 64 bytes.
\<close>

definition read_into_section_header ::
  "byte list \<Rightarrow> elf_section_header \<Rightarrow> elf_section_header" where
  "read_into_section_header bs sh =
     sh\<lparr>sh_name := field 0 4 bs, sh_type := field 4 4 bs, sh_flags := field 8 8 bs,
        sh_addr := field 16 8 bs, sh_offset := field 24 8 bs, sh_size := field 32 8 bs,
        sh_link := field 40 4 bs, sh_info := field 44 4 bs, sh_addralign := field 48 8 bs,
        sh_entsize := field 56 8 bs\<rparr>"

text \<open>\<^verbatim>\<open>Elf32_Shdr\<close> (40 bytes): ten words in the order of the assignments.\<close>

definition copy_Elf32_Shdr :: "byte list \<Rightarrow> elf_section_header \<Rightarrow> elf_section_header" where
  "copy_Elf32_Shdr real sh =
     sh\<lparr>sh_name := field 0 4 real,
        sh_type := field 4 4 real,
        sh_flags := ucast (field 8 4 real :: u32),
        sh_addr := ucast (field 12 4 real :: u32),
        sh_offset := ucast (field 16 4 real :: u32),
        sh_size := ucast (field 20 4 real :: u32),
        sh_link := field 24 4 real,
        sh_info := field 28 4 real,
        sh_addralign := ucast (field 32 4 real :: u32),
        sh_entsize := ucast (field 36 4 real :: u32)\<rparr>"

definition zero_section_header :: elf_section_header where
  "zero_section_header = \<lparr>sh_name = 0, sh_type = 0, sh_flags = 0, sh_addr = 0,
     sh_offset = 0, sh_size = 0, sh_link = 0, sh_info = 0, sh_addralign = 0,
     sh_entsize = 0, sh_name_str = None\<rparr>"

subsection \<open>Symbols\<close>

text \<open>
  \<^verbatim>\<open>elf_symbol\<close> is laid out as declared: \<open>st_name\<close> at offset 0, four bytes of
  padding, \<open>st_value\<close> at 8, \<open>st_size\<close> at 16, \<open>st_info\<close> at 24, \<open>st_other\<close> at 25,
  \<open>st_shndx\<close> at 26, \<open>st_name_str\<close> at 32.  For a 64-bit file the source reads the 24
  bytes of an on-disk \<^verbatim>\<open>Elf64_Sym\<close> to the address of the \<^verbatim>\<open>elf_symbol\<close>: they land
  in \<open>st_name\<close>, the padding, \<open>st_value\<close> and \<open>st_size\<close>.
\<close>

definition read_into_symbol :: "byte list \<Rightarrow> elf_symbol \<Rightarrow> elf_symbol" where
  "read_into_symbol bs symb =
     symb\<lparr>st_name := field 0 4 bs, st_value := field 8 8 bs, st_size := field 16 8 bs\<rparr>"

text \<open>
  \<^verbatim>\<open>Elf32_Sym\<close> (16 bytes): \<open>st_name\<close> at 0, \<open>st_value\<close> at 4, \<open>st_size\<close> at 8,
  \<open>st_info\<close> at 12, \<open>st_other\<close> at 13, \<open>st_shndx\<close> at 14.
\<close>

definition copy_Elf32_Sym :: "byte list \<Rightarrow> elf_symbol \<Rightarrow> elf_symbol" where
  "copy_Elf32_Sym real symb =
     symb\<lparr>st_name := field 0 4 real,
          st_info := field 12 1 real,
          st_other := field 13 1 real,
          st_shndx := field 14 2 real,
          st_value := ucast (field 4 4 real :: u32),
          st_size := ucast (field 8 4 real :: u32)\<rparr>"

definition zero_symbol :: elf_symbol where
  "zero_symbol = \<lparr>st_name = 0, st_value = 0, st_size = 0, st_info = 0, st_other = 0,
     st_shndx = 0, st_name_str = None\<rparr>"

definition resolve_symbol_name :: "elf_symbol \<Rightarrow> elf_symbol" where
  \<comment> \<open>\<^verbatim>\<open>st_name_str = dynamic_segment_string_table.data() + st_name\<close>\<close>
  "resolve_symbol_name symb = symb\<lparr>st_name_str := Some (unat (st_name symb))\<rparr>"

subsection \<open>Dynamic entries and relocations\<close>

definition read_dynamic :: "byte list \<Rightarrow> elf_dynamic" where
  "read_dynamic bs = \<lparr>d_tag = field 0 8 bs, d_un = field 8 8 bs\<rparr>"

text \<open>\<^verbatim>\<open>Elf32_Dyn\<close> (8 bytes): the signed \<open>d_tag\<close>, then \<open>d_val\<close>.\<close>

definition copy_Elf32_Dyn :: "byte list \<Rightarrow> elf_dynamic" where
  "copy_Elf32_Dyn real =
     \<lparr>d_tag = scast (field 0 4 real :: u32), d_un = ucast (field 4 4 real :: u32)\<rparr>"

definition zero_dynamic :: elf_dynamic where
  "zero_dynamic = \<lparr>d_tag = 0, d_un = 0\<rparr>"

text \<open>
  \<^verbatim>\<open>elf_rel\<close> and \<^verbatim>\<open>elf_rela\<close> overlay \<^verbatim>\<open>Elf64_Rel\<close> and \<^verbatim>\<open>Elf64_Rela\<close>: the low half
  of \<open>r_info\<close> is \<open>r_type\<close>, the high half is \<open>r_sym\<close>.
\<close>

definition read_rel :: "byte list \<Rightarrow> elf_rel" where
  "read_rel bs = \<lparr>r_offset = field 0 8 bs, r_type = field 8 4 bs, r_sym = field 12 4 bs\<rparr>"

definition read_rela :: "byte list \<Rightarrow> elf_rela" where
  "read_rela bs = \<lparr>ra_offset = field 0 8 bs, ra_type = field 8 4 bs, ra_sym = field 12 4 bs,
     ra_addend = field 16 8 bs\<rparr>"

text \<open>
  \<^verbatim>\<open>Elf32_Rel\<close> (8 bytes) and \<^verbatim>\<open>Elf32_Rela\<close> (12 bytes): \<open>r_offset\<close>, \<open>r_info\<close> and
  the signed \<open>r_addend\<close>.
\<close>

definition copy_Elf32_Rel :: "byte list \<Rightarrow> elf_rel" where
  "copy_Elf32_Rel real =
     \<lparr>r_offset = ucast (field 0 4 real :: u32),
      r_type = (field 4 4 real :: u32) AND 0xff,
      r_sym = drop_bit 8 (field 4 4 real :: u32)\<rparr>"

definition copy_Elf32_Rela :: "byte list \<Rightarrow> elf_rela" where
  "copy_Elf32_Rela real =
     \<lparr>ra_offset = ucast (field 0 4 real :: u32),
      ra_type = (field 4 4 real :: u32) AND 0xff,
      ra_sym = drop_bit 8 (field 4 4 real :: u32),
      ra_addend = scast (field 8 4 real :: u32)\<rparr>"

section \<open>The steps of the constructor\<close>

type_synonym step_result = "(bool \<times> elf_file) outcome"

definition fail_with :: "string \<Rightarrow> elf_file \<Rightarrow> bool \<times> elf_file" where
  \<comment> \<open>\<^verbatim>\<open>this->last_error = msg; return false;\<close>\<close>
  "fail_with msg st = (False, st\<lparr>last_error := msg\<rparr>)"

definition file_clear :: "elf_file \<Rightarrow> elf_file" where
  "file_clear st = st\<lparr>binary_file := stream_clear (binary_file st)\<rparr>"

definition file_seekg :: "u64 \<Rightarrow> elf_file \<Rightarrow> elf_file" where
  "file_seekg off st = st\<lparr>binary_file := seekg off (binary_file st)\<rparr>"

definition file_read :: "u64 \<Rightarrow> elf_file \<Rightarrow> byte list \<times> elf_file" where
  "file_read n st =
     (case stream_read n (binary_file st) of (bs, s) \<Rightarrow> (bs, st\<lparr>binary_file := s\<rparr>))"

definition bind_outcome :: "'a outcome \<Rightarrow> ('a \<Rightarrow> 'b outcome) \<Rightarrow> 'b outcome" where
  "bind_outcome r f =
     (case r of
        Returns x \<Rightarrow> f x
      | Throws_out_of_range \<Rightarrow> Throws_out_of_range
      | Undefined_behaviour \<Rightarrow> Undefined_behaviour)"

definition and_then :: "step_result \<Rightarrow> (elf_file \<Rightarrow> step_result) \<Rightarrow> step_result" where
  \<comment> \<open>the next step runs when the one before returned \<^verbatim>\<open>true\<close>\<close>
  "and_then r f = bind_outcome r (\<lambda>(ok, st). if ok then f st else Returns (False, st))"

datatype file_source = No_such_file | Unopenable | File "byte list"

definition open_file :: "file_source \<Rightarrow> elf_file \<Rightarrow> bool \<times> elf_file" where
  "open_file src st =
     (case src of
        No_such_file \<Rightarrow> fail_with ''File does not exist'' st
      | Unopenable \<Rightarrow> fail_with ''Failed to open library file'' st
      | File bs \<Rightarrow>
          (True, st\<lparr>binary_file := \<lparr>stream_bytes = bs, stream_open = True,
                     stream_fail = False, stream_pos = 0, stream_reads = []\<rparr>\<rparr>))"

definition read_elf_header :: "elf_file \<Rightarrow> bool \<times> elf_file" where
  "read_elf_header st =
     (if \<not> stream_open (binary_file st) then fail_with ''Binary file is not open'' st
      else
        case file_read 16 (file_seekg 0 (file_clear st)) of (bs, st1) \<Rightarrow>
        let st2 = st1\<lparr>header := (header st1)\<lparr>e_ident := read_ident (pad 16 bs)\<rparr>\<rparr> in
        if length bs \<noteq> 16 then fail_with ''Failed to read ELF identification'' st2
        else if is_64_bit st2 then
          (case file_read 64 (file_seekg 0 st2) of (bs64, st3) \<Rightarrow>
             let st4 = st3\<lparr>header := read_header (pad 64 bs64)\<rparr> in
             if length bs64 \<noteq> 64 then fail_with ''Failed to read ELF header'' st4
             else (True, st4))
        else if is_32_bit st2 then
          (case file_read 52 (file_seekg 0 st2) of (real_header, st3) \<Rightarrow>
             if length real_header \<noteq> 52 then fail_with ''Failed to read ELF header'' st3
             else (True, st3\<lparr>header := copy_Elf32_Ehdr real_header (header st3)\<rparr>))
        else fail_with ''Invalid ELF class'' st2)"

definition lowest_load_address :: "elf_program_header list \<Rightarrow> u64" where
  \<comment> \<open>the loop that sets \<open>base_address\<close>, started at \<^verbatim>\<open>0xFFFFFFFFFFFFFFFF\<close>\<close>
  "lowest_load_address phs =
     foldl (\<lambda>b ph. if p_type ph = PT_LOAD then min b (p_vaddr ph) else b)
       0xFFFFFFFFFFFFFFFF phs"

definition read_program_headers :: "elf_file \<Rightarrow> bool \<times> elf_file" where
  "read_program_headers st =
     (if \<not> stream_open (binary_file st) then fail_with ''Binary file is not open'' st
      else
        let phnum = unat (e_phnum (header st));
            phentsize = unat (e_phentsize (header st));
            program_headers_size = (ucast (e_phnum (header st)) * ucast (e_phentsize (header st)) :: u64);
            st1 = (file_seekg (e_phoff (header st)) (file_clear st))
                    \<lparr>program_headers :=
                       resize_vec phnum zero_program_header (program_headers st)\<rparr>
        in
        if is_64_bit st1 then
          if phentsize \<noteq> 56 then fail_with ''Invalid program header size'' st1
          else
            case file_read program_headers_size st1 of (bs, st2) \<Rightarrow>
              let st3 = st2\<lparr>program_headers :=
                    map read_program_header (chunks 56 phnum (pad (phnum * phentsize) bs))\<rparr>
              in
              if length bs \<noteq> phnum * phentsize
                then fail_with ''Failed to read program headers'' st3
              else (True, st3\<lparr>base_address := lowest_load_address (program_headers st3)\<rparr>)
        else
          if phentsize \<noteq> 32 then fail_with ''Invalid program header size'' st1
          else
            case file_read program_headers_size st1 of (real_program_headers, st2) \<Rightarrow>
              if length real_program_headers \<noteq> phnum * phentsize
                then fail_with ''Failed to read program headers'' st2
              else
                let st3 = st2\<lparr>program_headers :=
                      map copy_Elf32_Phdr (chunks 32 phnum real_program_headers)\<rparr>
                in (True, st3\<lparr>base_address := lowest_load_address (program_headers st3)\<rparr>))"

text \<open>
  \<^verbatim>\<open>read_section_headers\<close>.  The loop of the 64-bit branch reads one header after the
  other, each into its own element.
\<close>

fun read_section_headers_64 :: "nat list \<Rightarrow> elf_file \<Rightarrow> bool \<times> elf_file" where
  "read_section_headers_64 [] st = (True, st)"
| "read_section_headers_64 (i # rest) st =
     (case file_read (ucast (e_shentsize (header st))) st of (bs, st1) \<Rightarrow>
        let st2 = st1\<lparr>section_headers := (section_headers st1)
                       [i := read_into_section_header (pad 64 bs) (section_headers st1 ! i)]\<rparr>
        in
        if length bs \<noteq> unat (e_shentsize (header st))
          then fail_with ''Failed to read section header'' st2
        else read_section_headers_64 rest st2)"

text \<open>
  The second half of \<^verbatim>\<open>read_section_headers\<close>: the string table of the section names.
  \<^verbatim>\<open>section_headers[0]\<close> and \<^verbatim>\<open>section_headers[idx]\<close> are unchecked accesses.
\<close>

definition read_section_names :: "elf_file \<Rightarrow> step_result" where
  "read_section_names st =
     (let shstrndx = (ucast (e_shstrndx (header st)) :: u32) in
      if shstrndx = SHN_XINDEX \<and> section_headers st = [] then Undefined_behaviour
      else
        let idx = (if shstrndx = SHN_XINDEX then sh_link (section_headers st ! 0)
                   else shstrndx)
        in
        if length (section_headers st) \<le> unat idx then Undefined_behaviour
        else
          let table_header = section_headers st ! unat idx;
              table_size = unat (sh_size table_header)
          in
          case file_read (sh_size table_header) (file_seekg (sh_offset table_header) st) of
            (bs, st1) \<Rightarrow>
              let st2 = st1\<lparr>section_header_string_table := pad table_size bs\<rparr> in
              if length bs \<noteq> table_size
                then Returns (fail_with ''Failed to read section header string table'' st2)
              else Returns (True, st2\<lparr>section_headers :=
                     map (\<lambda>sh. sh\<lparr>sh_name_str := Some (unat (sh_name sh))\<rparr>)
                       (section_headers st2)\<rparr>))"

definition read_section_headers :: "elf_file \<Rightarrow> step_result" where
  "read_section_headers st =
     (if \<not> stream_open (binary_file st)
        then Returns (fail_with ''Binary file is not open'' st)
      else
        let shnum = unat (e_shnum (header st));
            shentsize = unat (e_shentsize (header st));
            section_headers_size = (ucast (e_shnum (header st)) * ucast (e_shentsize (header st)) :: u64);
            st1 = (file_seekg (e_shoff (header st)) (file_clear st))
                    \<lparr>section_headers :=
                       resize_vec shnum zero_section_header (section_headers st)\<rparr>
        in
        if is_64_bit st1 then
          if shentsize \<noteq> 64 then Returns (fail_with ''Invalid section header size'' st1)
          else and_then (Returns (read_section_headers_64 [0..<shnum] st1)) read_section_names
        else
          if shentsize \<noteq> 40 then Returns (fail_with ''Invalid section header size'' st1)
          else
            case file_read section_headers_size st1 of (real_section_headers, st2) \<Rightarrow>
              if length real_section_headers \<noteq> shnum * shentsize
                then Returns (fail_with ''Failed to read section headers'' st2)
              else
                read_section_names
                  (st2\<lparr>section_headers :=
                     map2 copy_Elf32_Shdr (chunks 40 shnum real_section_headers)
                       (section_headers st2)\<rparr>))"

text \<open>
  \<^verbatim>\<open>std::find_if\<close> over the section headers with \<^verbatim>\<open>std::strcmp(hdr.sh_name_str, name)\<close>:
  the first section with that name.
\<close>

fun find_section_named ::
  "byte list \<Rightarrow> byte list \<Rightarrow> elf_section_header list \<Rightarrow> elf_section_header option outcome"
where
  "find_section_named table name [] = Returns None"
| "find_section_named table name (sh # rest) =
     (case sh_name_str sh of
        None \<Rightarrow> Undefined_behaviour
      | Some off \<Rightarrow>
          (case c_str_eq table off name of
             None \<Rightarrow> Undefined_behaviour
           | Some True \<Rightarrow> Returns (Some sh)
           | Some False \<Rightarrow> find_section_named table name rest))"

definition find_section :: "elf_file \<Rightarrow> string \<Rightarrow> elf_section_header option outcome" where
  "find_section st name =
     find_section_named (section_header_string_table st) (c_str name) (section_headers st)"

text \<open>
  \<^verbatim>\<open>read_init_functions\<close>, in its three blocks: the \<^verbatim>\<open>.preinit_array\<close> entries, the
  address of \<^verbatim>\<open>.init\<close>, the \<^verbatim>\<open>.init_array\<close> entries.
\<close>

definition read_preinit_array :: "elf_file \<Rightarrow> step_result" where
  "read_preinit_array st =
     bind_outcome (find_section st ''.preinit_array'') (\<lambda>found.
       case found of
         None \<Rightarrow> Returns (True, st)
       | Some sh \<Rightarrow>
           let preinit_entry_size = (if is_64_bit st then 8 else 4 :: nat);
               n = unat (sh_size sh)
           in
           if n mod preinit_entry_size \<noteq> 0
             then Returns (fail_with ''Invalid preinit array size'' st)
           else
             let preinit_entry_count = n div preinit_entry_size in
             case file_read (sh_size sh) (file_seekg (sh_offset sh) st) of (bs, st1) \<Rightarrow>
               if is_64_bit st then
                 let st2 = st1\<lparr>init_functions :=
                       map le_word (chunks 8 preinit_entry_count (pad n bs))\<rparr>
                 in
                 if length bs \<noteq> n then Returns (fail_with ''Failed to read preinit array'' st2)
                 else Returns (True, st2)
               else
                 if length bs \<noteq> n then Returns (fail_with ''Failed to read preinit array'' st1)
                 else Returns (True, st1\<lparr>init_functions :=
                        map (\<lambda>e. ucast (le_word e :: u32)) (chunks 4 preinit_entry_count bs)\<rparr>))"

definition append_init_section :: "elf_file \<Rightarrow> step_result" where
  "append_init_section st =
     bind_outcome (find_section st ''.init'') (\<lambda>found.
       case found of
         None \<Rightarrow> Returns (True, st)
       | Some sh \<Rightarrow> Returns (True, st\<lparr>init_functions := init_functions st @ [sh_addr sh]\<rparr>))"

definition read_init_array :: "elf_file \<Rightarrow> step_result" where
  "read_init_array st =
     bind_outcome (find_section st ''.init_array'') (\<lambda>found.
       case found of
         None \<Rightarrow> Returns (True, st)
       | Some sh \<Rightarrow>
           let init_entry_size = (if is_64_bit st then 8 else 4 :: nat);
               n = unat (sh_size sh)
           in
           if n mod init_entry_size \<noteq> 0
             then Returns (fail_with ''Invalid preinit array size'' st)
           else
             let init_entry_count = n div init_entry_size in
             case file_read (sh_size sh) (file_seekg (sh_offset sh) st) of (bs, st1) \<Rightarrow>
               if is_64_bit st then
                 let st2 = st1\<lparr>init_functions := init_functions st1
                       @ map le_word (chunks 8 init_entry_count (pad n bs))\<rparr>
                 in
                 if length bs \<noteq> n then Returns (fail_with ''Failed to read preinit array'' st2)
                 else Returns (True, st2)
               else
                 if length bs \<noteq> n then Returns (fail_with ''Failed to read preinit array'' st1)
                 else Returns (True, st1\<lparr>init_functions := init_functions st1
                        @ map (\<lambda>e. ucast (le_word e :: u32)) (chunks 4 init_entry_count bs)\<rparr>))"

definition read_init_functions :: "elf_file \<Rightarrow> step_result" where
  "read_init_functions st =
     (if \<not> stream_open (binary_file st)
        then Returns (fail_with ''Binary file is not open'' st)
      else and_then (and_then (read_preinit_array st) append_init_section) read_init_array)"

text \<open>
  \<^verbatim>\<open>read_term_functions\<close>: the \<^verbatim>\<open>.fini_array\<close> entries in reverse order (the 64-bit
  branch reverses the vector after the read, the 32-bit branch appends through the
  reverse iterators), then the address of \<^verbatim>\<open>.fini\<close>.
\<close>

definition read_fini_array :: "elf_file \<Rightarrow> step_result" where
  "read_fini_array st =
     bind_outcome (find_section st ''.fini_array'') (\<lambda>found.
       case found of
         None \<Rightarrow> Returns (True, st)
       | Some sh \<Rightarrow>
           let fini_entry_size = (if is_64_bit st then 8 else 4 :: nat);
               n = unat (sh_size sh)
           in
           if n mod fini_entry_size \<noteq> 0
             then Returns (fail_with ''Invalid fini array size'' st)
           else
             let fini_entry_count = n div fini_entry_size in
             case file_read (sh_size sh) (file_seekg (sh_offset sh) st) of (bs, st1) \<Rightarrow>
               if is_64_bit st then
                 let entries = map le_word (chunks 8 fini_entry_count (pad n bs)) in
                 if length bs \<noteq> n
                   then Returns (fail_with ''Failed to read fini array''
                                   (st1\<lparr>fini_functions := entries\<rparr>))
                 else Returns (True, st1\<lparr>fini_functions := rev entries\<rparr>)
               else
                 if length bs \<noteq> n then Returns (fail_with ''Failed to read fini array'' st1)
                 else Returns (True, st1\<lparr>fini_functions := fini_functions st1
                        @ rev (map (\<lambda>e. ucast (le_word e :: u32))
                                 (chunks 4 fini_entry_count bs))\<rparr>))"

definition append_fini_section :: "elf_file \<Rightarrow> step_result" where
  "append_fini_section st =
     bind_outcome (find_section st ''.fini'') (\<lambda>found.
       case found of
         None \<Rightarrow> Returns (True, st)
       | Some sh \<Rightarrow> Returns (True, st\<lparr>fini_functions := fini_functions st @ [sh_addr sh]\<rparr>))"

definition read_term_functions :: "elf_file \<Rightarrow> step_result" where
  "read_term_functions st = and_then (read_fini_array st) append_fini_section"

text \<open>
  The constructor \<^verbatim>\<open>elf_file(std::filesystem::path)\<close>; the argument stands for what
  the path leads to.  The result is the constructed object.
\<close>

definition construct :: "file_source \<Rightarrow> elf_file outcome" where
  "construct src =
     (case open_file src new_elf_file of
        (False, st) \<Rightarrow> Returns st
      | (True, st) \<Rightarrow>
          bind_outcome
            (and_then (and_then (and_then (and_then
               (Returns (read_elf_header st))
               (\<lambda>st. Returns (read_program_headers st)))
               read_section_headers)
               read_init_functions)
               read_term_functions)
            (\<lambda>(ok, st). Returns st))"

section \<open>The dynamic segment\<close>

definition read_array :: "nat \<Rightarrow> nat \<Rightarrow> byte list \<Rightarrow> 'a::len word list" where
  \<comment> \<open>a vector of \<open>count\<close> value-initialised integers of \<open>width\<close> bytes, after \<open>bs\<close> was
      read to its start\<close>
  "read_array width count bs = map le_word (chunks width count (pad (width * count) bs))"

definition overlay :: "byte list \<Rightarrow> byte list \<Rightarrow> byte list" where
  \<comment> \<open>the buffer \<open>buf\<close> after \<open>bs\<close> was read to its start\<close>
  "overlay bs buf = bs @ drop (length bs) buf"

text \<open>
  \<^verbatim>\<open>parse_dynamic_segment\<close>, first block: the entries of the segment.  In the 64-bit
  branch the vector is resized and read into; in the 32-bit branch it is resized, and
  assigned after the read.
\<close>

definition read_dynamic_entries :: "elf_program_header \<Rightarrow> elf_file \<Rightarrow> bool \<times> elf_file" where
  "read_dynamic_entries dynamic_header st =
     (let st1 = file_seekg (p_offset dynamic_header) (file_clear st);
          filesz = p_filesz dynamic_header
      in
      if is_64_bit st1 then
        let dynamic_entry_count = unat (filesz div 16) in
        if filesz mod 16 \<noteq> 0 then fail_with ''Invalid dynamic segment size'' st1
        else
          case file_read filesz st1 of (bs, st2) \<Rightarrow>
            let st3 = st2\<lparr>dynamic_entries :=
                  map read_dynamic (chunks 16 dynamic_entry_count (pad (unat filesz) bs))\<rparr>
            in
            if length bs \<noteq> unat filesz then fail_with ''Failed to read dynamic segment'' st3
            else (True, st3)
      else if is_32_bit st1 then
        let dynamic_entry_count = unat (filesz div 8) in
        if filesz mod 8 \<noteq> 0 then fail_with ''Invalid dynamic segment size'' st1
        else
          case file_read filesz st1 of (real_dynamic_segment, st2) \<Rightarrow>
            if length real_dynamic_segment \<noteq> unat filesz
              then fail_with ''Failed to read dynamic segment''
                     (st2\<lparr>dynamic_entries :=
                        resize_vec dynamic_entry_count zero_dynamic (dynamic_entries st2)\<rparr>)
            else (True, st2\<lparr>dynamic_entries :=
                    map copy_Elf32_Dyn (chunks 8 dynamic_entry_count real_dynamic_segment)\<rparr>)
      else (False, st1))"

text \<open>
  Second block: the \<^verbatim>\<open>switch\<close> over the tags.  The four local variables of the source
  are the fields of \<open>dynamic_info\<close>.
\<close>

record dynamic_info =
  dynamic_string_table_offset :: u64
  dynamic_string_table_length :: u64
  symbol_table_offset :: u64
  symbol_table_entry_size :: u64

definition no_dynamic_info :: dynamic_info where
  "no_dynamic_info = \<lparr>dynamic_string_table_offset = 0, dynamic_string_table_length = 0,
     symbol_table_offset = 0, symbol_table_entry_size = 0\<rparr>"

definition extract_dynamic_entry ::
  "dynamic_info \<times> elf_file \<Rightarrow> elf_dynamic \<Rightarrow> dynamic_info \<times> elf_file" where
  "extract_dynamic_entry acc dynamic_entry =
     (case acc of (info, st) \<Rightarrow>
        if d_tag dynamic_entry = DT_STRTAB then
          (info\<lparr>dynamic_string_table_offset := d_un dynamic_entry - base_address st\<rparr>, st)
        else if d_tag dynamic_entry = DT_STRSZ then
          (info\<lparr>dynamic_string_table_length := d_un dynamic_entry\<rparr>, st)
        else if d_tag dynamic_entry = DT_SYMTAB then
          (info\<lparr>symbol_table_offset := d_un dynamic_entry - base_address st\<rparr>, st)
        else if d_tag dynamic_entry = DT_SYMENT then
          (info\<lparr>symbol_table_entry_size := d_un dynamic_entry\<rparr>, st)
        else if d_tag dynamic_entry = DT_SONAME then
          (info, st\<lparr>so_name := d_un dynamic_entry\<rparr>)
        else if d_tag dynamic_entry = DT_NEEDED then
          (info, st\<lparr>needed_libraries := needed_libraries st @ [d_un dynamic_entry]\<rparr>)
        else (info, st))"

definition extract_dynamic_info :: "elf_file \<Rightarrow> dynamic_info \<times> elf_file" where
  "extract_dynamic_info st =
     foldl extract_dynamic_entry (no_dynamic_info, st) (dynamic_entries st)"

text \<open>
  Third block: the dynamic string table.  \<open>table_base\<close> is the address of the buffer of
  \<open>dynamic_segment_string_table\<close>, which the allocator chooses; the source adds it to
  the pointer values of \<open>so_name\<close> and \<open>needed_libraries\<close>.
\<close>

definition read_dynamic_string_table :: "u64 \<Rightarrow> dynamic_info \<Rightarrow> elf_file \<Rightarrow> bool \<times> elf_file"
where
  "read_dynamic_string_table table_base info st =
     (let len = dynamic_string_table_length info in
      case file_read len (file_seekg (dynamic_string_table_offset info) st) of
        (bs, st1) \<Rightarrow>
          let st2 = st1\<lparr>dynamic_segment_string_table :=
                overlay bs (resize_vec (unat len) 0 (dynamic_segment_string_table st1))\<rparr>
          in
          if length bs \<noteq> unat len then fail_with ''Failed to read dynamic string table'' st2
          else (True, st2\<lparr>so_name := table_base + so_name st2,
                         needed_libraries := map (\<lambda>needed. table_base + needed)
                                               (needed_libraries st2)\<rparr>))"

text \<open>Fifth block: the symbol table, after the check of its offset.\<close>

fun read_symbols_64 :: "nat list \<Rightarrow> elf_file \<Rightarrow> bool \<times> elf_file" where
  "read_symbols_64 [] st = (True, st)"
| "read_symbols_64 (i # rest) st =
     (case file_read 24 st of (bs, st1) \<Rightarrow>
        let st2 = st1\<lparr>dynamic_symbols := (dynamic_symbols st1)
                       [i := read_into_symbol (pad 24 bs) (dynamic_symbols st1 ! i)]\<rparr>
        in
        if length bs \<noteq> 24 then fail_with ''Failed to read dynamic symbol'' st2
        else read_symbols_64 rest
               (st2\<lparr>dynamic_symbols := (dynamic_symbols st2)
                       [i := resolve_symbol_name (dynamic_symbols st2 ! i)]\<rparr>))"

definition read_dynamic_symbols ::
  "dynamic_info \<Rightarrow> elf_section_header \<Rightarrow> elf_file \<Rightarrow> bool \<times> elf_file" where
  "read_dynamic_symbols info symbol_table_header st =
     (let entry_size = symbol_table_entry_size info;
          symbol_table_entry_count = sh_size symbol_table_header div entry_size;
          resized = resize_vec (unat symbol_table_entry_count) zero_symbol (dynamic_symbols st)
      in
      if is_64_bit st then
        if entry_size \<noteq> 24 then fail_with ''Invalid symbol table entry size'' st
        else read_symbols_64 [0..<unat symbol_table_entry_count]
               (file_seekg (symbol_table_offset info) (st\<lparr>dynamic_symbols := resized\<rparr>))
      else
        if entry_size \<noteq> 16 then fail_with ''Invalid symbol table entry size'' st
        else
          case file_read (entry_size * symbol_table_entry_count)
                 (file_seekg (symbol_table_offset info) (st\<lparr>dynamic_symbols := resized\<rparr>)) of
            (real_dynamic_symbols, st1) \<Rightarrow>
              if length real_dynamic_symbols \<noteq> unat (entry_size * symbol_table_entry_count)
                then fail_with ''Failed to read dynamic symbols'' st1
              else (True, st1\<lparr>dynamic_symbols :=
                      map2 (\<lambda>real symb. resolve_symbol_name (copy_Elf32_Sym real symb))
                        (chunks 16 (unat symbol_table_entry_count) real_dynamic_symbols)
                        (dynamic_symbols st1)\<rparr>))"

subsection \<open>Hash tables\<close>

definition parse_hash_section :: "elf_section_header \<Rightarrow> elf_file \<Rightarrow> bool \<times> elf_file" where
  "parse_hash_section section_header st =
     (case file_read 8 (file_seekg (sh_offset section_header) st) of (table_header, st1) \<Rightarrow>
        if length table_header \<noteq> 8 then fail_with ''Failed to read hash table header'' st1
        else
          let nbucket = (field 0 4 table_header :: u32);
              nchain = (field 4 4 table_header :: u32)
          in
          if nbucket = 0 \<or> nchain = 0 then fail_with ''Invalid hash table header'' st1
          else
            case file_read (4 * ucast nbucket) st1 of (bs, st2) \<Rightarrow>
              let st3 = st2\<lparr>hash_buckets := read_array 4 (unat nbucket) bs\<rparr> in
              if length bs \<noteq> 4 * unat nbucket
                then fail_with ''Failed to read hash table buckets'' st3
              else
                case file_read (4 * ucast nchain) st3 of (cs, st4) \<Rightarrow>
                  let st5 = st4\<lparr>hash_chains := read_array 4 (unat nchain) cs\<rparr> in
                  if length cs \<noteq> 4 * unat nchain
                    then fail_with ''Failed to read hash table chains'' st5
                  else (True, st5))"

text \<open>
  \<^verbatim>\<open>hash_values_count\<close> is \<^verbatim>\<open>dynamic_symbols.size() - gnu_hash_omitted_symbols_count\<close>
  in \<^verbatim>\<open>std::size_t\<close>, and the size in bytes is four times that, cast to
  \<^verbatim>\<open>std::streamsize\<close>.
\<close>

definition parse_gnu_hash_values :: "elf_file \<Rightarrow> bool \<times> elf_file" where
  "parse_gnu_hash_values st =
     (let hash_values_count = (word_of_nat (length (dynamic_symbols st)) :: u64)
                                - ucast (gnu_hash_omitted_symbols_count st);
          hash_values_size = 4 * hash_values_count
      in
      case file_read hash_values_size st of (bs, st1) \<Rightarrow>
        let st2 = st1\<lparr>gnu_hash_values := read_array 4 (unat hash_values_count) bs\<rparr> in
        if length bs \<noteq> unat hash_values_size
          then fail_with ''Failed to read gnu hash table values'' st2
        else (True, st2))"

definition parse_gnu_hash_buckets :: "u32 \<Rightarrow> elf_file \<Rightarrow> bool \<times> elf_file" where
  "parse_gnu_hash_buckets nbuckets st =
     (case file_read (4 * ucast nbuckets) st of (bs, st1) \<Rightarrow>
        let st2 = st1\<lparr>gnu_hash_buckets := read_array 4 (unat nbuckets) bs\<rparr> in
        if length bs \<noteq> 4 * unat nbuckets
          then fail_with ''Failed to read gnu hash table buckets'' st2
        else parse_gnu_hash_values st2)"

definition parse_gnu_hash_section :: "elf_section_header \<Rightarrow> elf_file \<Rightarrow> bool \<times> elf_file"
where
  "parse_gnu_hash_section section_header st =
     (case file_read 16 (file_seekg (sh_offset section_header) st) of (table_header, st1) \<Rightarrow>
        if length table_header \<noteq> 16
          then fail_with ''Failed to read gnu hash table header'' st1
        else
          let nbuckets = (field 0 4 table_header :: u32);
              omitted_symbols_count = (field 4 4 table_header :: u32);
              bloom_size = (field 8 4 table_header :: u32);
              bloom_shift = (field 12 4 table_header :: u32);
              st2 = st1\<lparr>gnu_hash_bloom_shift := bloom_shift,
                        gnu_hash_omitted_symbols_count := omitted_symbols_count\<rparr>
          in
          if is_64_bit st2 then
            case file_read (8 * ucast bloom_size) st2 of (bs, st3) \<Rightarrow>
              let st4 = st3\<lparr>gnu_hash_bloom_words := read_array 8 (unat bloom_size) bs\<rparr> in
              if length bs \<noteq> 8 * unat bloom_size
                then fail_with ''Failed to read gnu hash table bloom words'' st4
              else parse_gnu_hash_buckets nbuckets st4
          else if is_32_bit st2 then
            case file_read (4 * ucast bloom_size) st2 of (real_bloom_words, st3) \<Rightarrow>
              if length real_bloom_words \<noteq> 4 * unat bloom_size
                then fail_with ''Failed to read gnu hash table bloom words'' st3
              else parse_gnu_hash_buckets nbuckets
                     (st3\<lparr>gnu_hash_bloom_words :=
                        map (\<lambda>w. ucast (le_word w :: u32))
                          (chunks 4 (unat bloom_size) real_bloom_words)\<rparr>)
          else fail_with ''Invalid ELF class'' st2)"

fun parse_hash_sections :: "elf_section_header list \<Rightarrow> elf_file \<Rightarrow> bool \<times> elf_file" where
  "parse_hash_sections [] st = (True, st)"
| "parse_hash_sections (section_header # rest) st =
     (if sh_type section_header = SHT_HASH then
        (case parse_hash_section section_header st of
           (ok, st1) \<Rightarrow> if ok then parse_hash_sections rest st1 else (False, st1))
      else if sh_type section_header = SHT_GNU_HASH then
        (case parse_gnu_hash_section section_header st of
           (ok, st1) \<Rightarrow> if ok then parse_hash_sections rest st1 else (False, st1))
      else parse_hash_sections rest st)"

definition parse_hash_tables :: "elf_file \<Rightarrow> bool \<times> elf_file" where
  "parse_hash_tables st =
     (if \<not> stream_open (binary_file st) then fail_with ''Binary file is not open'' st
      else parse_hash_sections (section_headers st) st)"

subsection \<open>Relocations\<close>

text \<open>
  The chain \<^verbatim>\<open>if (strcmp(name, plt) == 0) ... else if (strcmp(name, dyn) == 0) ... else\<close>
  on the resolved section name.
\<close>

datatype relocation_group = Plt | Dyn

definition section_name_is :: "elf_file \<Rightarrow> elf_section_header \<Rightarrow> string \<Rightarrow> bool option" where
  "section_name_is st sh name =
     (case sh_name_str sh of
        None \<Rightarrow> None
      | Some off \<Rightarrow> c_str_eq (section_header_string_table st) off (c_str name))"

definition classify_relocation_section ::
  "elf_file \<Rightarrow> elf_section_header \<Rightarrow> string \<Rightarrow> string \<Rightarrow> relocation_group option outcome"
where
  "classify_relocation_section st sh plt_name dyn_name =
     (case section_name_is st sh plt_name of
        None \<Rightarrow> Undefined_behaviour
      | Some True \<Rightarrow> Returns (Some Plt)
      | Some False \<Rightarrow>
          (case section_name_is st sh dyn_name of
             None \<Rightarrow> Undefined_behaviour
           | Some True \<Rightarrow> Returns (Some Dyn)
           | Some False \<Rightarrow> Returns None))"

definition store_rel_entries :: "relocation_group \<Rightarrow> elf_rel list \<Rightarrow> elf_file \<Rightarrow> elf_file" where
  "store_rel_entries g entries st =
     (case g of Plt \<Rightarrow> st\<lparr>plt_rel_entries := entries\<rparr>
              | Dyn \<Rightarrow> st\<lparr>dyn_rel_entries := entries\<rparr>)"

definition store_rela_entries :: "relocation_group \<Rightarrow> elf_rela list \<Rightarrow> elf_file \<Rightarrow> elf_file"
where
  "store_rela_entries g entries st =
     (case g of Plt \<Rightarrow> st\<lparr>plt_rela_entries := entries\<rparr>
              | Dyn \<Rightarrow> st\<lparr>dyn_rela_entries := entries\<rparr>)"

text \<open>
  A section of type \<^verbatim>\<open>SHT_REL\<close>.  The vector that receives the bytes has
  \<^verbatim>\<open>sh_size / sh_entsize\<close> elements and \<^verbatim>\<open>sh_size\<close> bytes are read into it: the read
  runs past its end when more bytes arrive than the elements hold.  The 64-bit branch
  looks at the name before the read, the 32-bit branch after it.
\<close>

definition parse_rel_section :: "elf_section_header \<Rightarrow> elf_file \<Rightarrow> step_result" where
  "parse_rel_section section_header st =
     (let st1 = file_seekg (sh_offset section_header) st;
          relocation_entries_count =
            unat (sh_size section_header div sh_entsize section_header)
      in
      if is_64_bit st1 then
        if sh_entsize section_header \<noteq> 16
          then Returns (fail_with ''Invalid relocation entry size'' st1)
        else
          bind_outcome (classify_relocation_section st1 section_header ''.rel.plt'' ''.rel.dyn'')
            (\<lambda>group. case group of
               None \<Rightarrow> Returns (fail_with ''Invalid relocation section name'' st1)
             | Some g \<Rightarrow>
                 (case file_read (sh_size section_header) st1 of (bs, st2) \<Rightarrow>
                    if 16 * relocation_entries_count < length bs then Undefined_behaviour
                    else
                      let st3 = store_rel_entries g
                            (map read_rel (chunks 16 relocation_entries_count
                               (pad (16 * relocation_entries_count) bs))) st2
                      in
                      if length bs \<noteq> unat (sh_size section_header)
                        then Returns (fail_with ''Failed to read relocation entries'' st3)
                      else Returns (True, st3)))
      else
        if sh_entsize section_header \<noteq> 8
          then Returns (fail_with ''Invalid relocation entry size'' st1)
        else
          case file_read (sh_size section_header) st1 of (real_relocation_entries, st2) \<Rightarrow>
            if 8 * relocation_entries_count < length real_relocation_entries
              then Undefined_behaviour
            else if length real_relocation_entries \<noteq> unat (sh_size section_header)
              then Returns (fail_with ''Failed to read relocation entries'' st2)
            else
              bind_outcome
                (classify_relocation_section st2 section_header ''.rel.plt'' ''.rel.dyn'')
                (\<lambda>group. case group of
                   None \<Rightarrow> Returns (fail_with ''Invalid relocation section name'' st2)
                 | Some g \<Rightarrow>
                     Returns (True, store_rel_entries g
                       (map copy_Elf32_Rel
                          (chunks 8 relocation_entries_count real_relocation_entries)) st2)))"

text \<open>A section of type \<^verbatim>\<open>SHT_RELA\<close>, with entries of 24 and of 12 bytes.\<close>

definition parse_rela_section :: "elf_section_header \<Rightarrow> elf_file \<Rightarrow> step_result" where
  "parse_rela_section section_header st =
     (let st1 = file_seekg (sh_offset section_header) st;
          relocation_entries_count =
            unat (sh_size section_header div sh_entsize section_header)
      in
      if is_64_bit st1 then
        if sh_entsize section_header \<noteq> 24
          then Returns (fail_with ''Invalid relocation entry size'' st1)
        else
          bind_outcome
            (classify_relocation_section st1 section_header ''.rela.plt'' ''.rela.dyn'')
            (\<lambda>group. case group of
               None \<Rightarrow> Returns (fail_with ''Invalid relocation section name'' st1)
             | Some g \<Rightarrow>
                 (case file_read (sh_size section_header) st1 of (bs, st2) \<Rightarrow>
                    if 24 * relocation_entries_count < length bs then Undefined_behaviour
                    else
                      let st3 = store_rela_entries g
                            (map read_rela (chunks 24 relocation_entries_count
                               (pad (24 * relocation_entries_count) bs))) st2
                      in
                      if length bs \<noteq> unat (sh_size section_header)
                        then Returns (fail_with ''Failed to read relocation entries'' st3)
                      else Returns (True, st3)))
      else
        if sh_entsize section_header \<noteq> 12
          then Returns (fail_with ''Invalid relocation entry size'' st1)
        else
          case file_read (sh_size section_header) st1 of (real_relocation_entries, st2) \<Rightarrow>
            if 12 * relocation_entries_count < length real_relocation_entries
              then Undefined_behaviour
            else if length real_relocation_entries \<noteq> unat (sh_size section_header)
              then Returns (fail_with ''Failed to read relocation entries'' st2)
            else
              bind_outcome
                (classify_relocation_section st2 section_header ''.rela.plt'' ''.rela.dyn'')
                (\<lambda>group. case group of
                   None \<Rightarrow> Returns (fail_with ''Invalid relocation section name'' st2)
                 | Some g \<Rightarrow>
                     Returns (True, store_rela_entries g
                       (map copy_Elf32_Rela
                          (chunks 12 relocation_entries_count real_relocation_entries)) st2)))"

fun parse_relocation_sections :: "elf_section_header list \<Rightarrow> elf_file \<Rightarrow> step_result" where
  "parse_relocation_sections [] st = Returns (True, st)"
| "parse_relocation_sections (section_header # rest) st =
     (if sh_type section_header = SHT_REL then
        (case parse_rel_section section_header st of
           Returns (ok, st1) \<Rightarrow>
             if ok then parse_relocation_sections rest st1 else Returns (False, st1)
         | Throws_out_of_range \<Rightarrow> Throws_out_of_range
         | Undefined_behaviour \<Rightarrow> Undefined_behaviour)
      else if sh_type section_header = SHT_RELA then
        (case parse_rela_section section_header st of
           Returns (ok, st1) \<Rightarrow>
             if ok then parse_relocation_sections rest st1 else Returns (False, st1)
         | Throws_out_of_range \<Rightarrow> Throws_out_of_range
         | Undefined_behaviour \<Rightarrow> Undefined_behaviour)
      else parse_relocation_sections rest st)"

definition parse_relocations :: "elf_file \<Rightarrow> step_result" where
  "parse_relocations st =
     (if \<not> stream_open (binary_file st)
        then Returns (fail_with ''Binary file is not open'' st)
      else parse_relocation_sections (section_headers st) st)"

subsection \<open>The whole of \<^verbatim>\<open>parse_dynamic_segment\<close>\<close>

text \<open>
  The part of \<^verbatim>\<open>parse_dynamic_segment\<close> from the look-up of the section of type
  \<^verbatim>\<open>SHT_DYNSYM\<close> on: the check of the symbol table offset, the symbols, the hash
  tables, the relocations.
\<close>

definition read_symbol_table :: "dynamic_info \<Rightarrow> elf_file \<Rightarrow> step_result" where
  "read_symbol_table info st =
     (case find (\<lambda>section_header. sh_type section_header = SHT_DYNSYM) (section_headers st) of
        None \<Rightarrow> Returns (fail_with ''Failed to find dynamic symbol table'' st)
      | Some symbol_table_header \<Rightarrow>
          if symbol_table_offset info \<noteq> sh_offset symbol_table_header
            then Returns (fail_with ''Symbol table offsets don't match'' st)
          else
            and_then (and_then
              (Returns (read_dynamic_symbols info symbol_table_header st))
              (\<lambda>st. Returns (parse_hash_tables st)))
              parse_relocations)"

definition parse_dynamic_segment :: "u64 \<Rightarrow> elf_file \<Rightarrow> step_result" where
  "parse_dynamic_segment table_base st =
     (if \<not> stream_open (binary_file st)
        then Returns (fail_with ''Binary file is not open'' st)
      else
        case find (\<lambda>program_header. p_type program_header = PT_DYNAMIC) (program_headers st) of
          None \<Rightarrow> Returns (False, st)
        | Some dynamic_header \<Rightarrow>
            and_then (Returns (read_dynamic_entries dynamic_header st)) (\<lambda>st1.
              case extract_dynamic_info st1 of (info, st2) \<Rightarrow>
                if dynamic_string_table_offset info = 0 \<or> dynamic_string_table_length info = 0
                  then Returns (fail_with ''Failed to find dynamic string table'' st2)
                else if symbol_table_offset info = 0 \<or> symbol_table_entry_size info = 0
                  then Returns (fail_with ''Failed to find symbol table'' st2)
                else
                  and_then (Returns (read_dynamic_string_table table_base info st2))
                    (read_symbol_table info)))"

definition outcome_map :: "('a \<Rightarrow> 'b) \<Rightarrow> 'a outcome \<Rightarrow> 'b outcome" where
  \<comment> \<open>an accessor applied to the object that a call returns\<close>
  "outcome_map f r = bind_outcome r (\<lambda>x. Returns (f x))"

section \<open>Views of the object\<close>


text \<open>
  The members that only \<^verbatim>\<open>parse_dynamic_segment\<close> and the functions it calls assign,
  and the two lists that \<^verbatim>\<open>read_init_functions\<close> and \<^verbatim>\<open>read_term_functions\<close> assign.
\<close>

definition dynamic_part where
  "dynamic_part st =
     (dynamic_entries st, dynamic_segment_string_table st, so_name st, needed_libraries st,
      dynamic_symbols st,
      (hash_buckets st, hash_chains st, gnu_hash_buckets st, gnu_hash_values st,
       gnu_hash_bloom_shift st, gnu_hash_omitted_symbols_count st, gnu_hash_bloom_words st),
      (plt_rel_entries st, dyn_rel_entries st, plt_rela_entries st, dyn_rela_entries st))"

definition lifecycle_part :: "elf_file \<Rightarrow> u64 list \<times> u64 list" where
  "lifecycle_part st = (init_functions st, fini_functions st)"


text \<open>A step that returns leaves a view of the object as it was.\<close>

definition keeps :: "(elf_file \<Rightarrow> 'a) \<Rightarrow> elf_file \<Rightarrow> step_result \<Rightarrow> bool" where
  "keeps view st r =
     (case r of
        Returns (ok, st') \<Rightarrow> view st' = view st
      | Throws_out_of_range \<Rightarrow> True
      | Undefined_behaviour \<Rightarrow> True)"

section \<open>What a file holds\<close>

text \<open>
  The little-endian bytes of an integer, and what it means that a section of the opened
  file holds an array of addresses of \<open>w\<close> bytes each: the section lies at an offset
  and has a size that are not negative as \<^verbatim>\<open>std::streamoff\<close> and \<^verbatim>\<open>std::streamsize\<close>,
  every entry fits into \<open>w\<close> bytes, and the bytes of the entries stand at the offset
  of the section.
\<close>

fun to_le :: "nat \<Rightarrow> 'a::len word \<Rightarrow> byte list" where
  "to_le 0 w = []"
| "to_le (Suc n) w = ucast w # to_le n (drop_bit 8 w)"

definition file_bytes_at :: "elf_file \<Rightarrow> u64 \<Rightarrow> nat \<Rightarrow> byte list" where
  "file_bytes_at st off n = take n (drop (unat off) (stream_bytes (binary_file st)))"

definition section_holds :: "elf_file \<Rightarrow> elf_section_header \<Rightarrow> nat \<Rightarrow> u64 list \<Rightarrow> bool" where
  "section_holds st sh w entries =
     (sh_offset sh < 0x8000000000000000 \<and> sh_size sh < 0x8000000000000000
      \<and> unat (sh_size sh) = w * length entries
      \<and> list_all (\<lambda>e. take_bit (8 * w) e = e) entries
      \<and> file_bytes_at st (sh_offset sh) (w * length entries) = concat (map (to_le w) entries))"

text \<open>The stream after a read of \<open>n\<close> bytes at the position \<open>pos\<close> that was served in full.\<close>

definition completed_read :: "nat \<Rightarrow> nat \<Rightarrow> ifstream \<Rightarrow> ifstream" where
  "completed_read pos n s =
     s\<lparr>stream_reads := stream_reads s @ [(pos, n)], stream_pos := pos + n,
       stream_fail := False\<rparr>"

section \<open>On-disk records\<close>

text \<open>
  The object representations of the structures of namespace \<^verbatim>\<open>types\<close>: the members in
  the order of their declaration, little-endian; every member is aligned, so there is
  no padding.  The arguments are the members in that order; \<open>ident\<close> stands for the 16
  bytes of \<open>e_ident\<close>.
\<close>

definition Elf32_Ehdr_bytes ::
  "byte list \<Rightarrow> u16 \<Rightarrow> u16 \<Rightarrow> u32 \<Rightarrow> u32 \<Rightarrow> u32 \<Rightarrow> u32 \<Rightarrow> u32 \<Rightarrow> u16 \<Rightarrow> u16 \<Rightarrow> u16 \<Rightarrow> u16 \<Rightarrow> u16
     \<Rightarrow> u16 \<Rightarrow> byte list" where
  "Elf32_Ehdr_bytes ident type machine version entry phoff shoff flags ehsize phentsize phnum
       shentsize shnum shstrndx =
     ident @ to_le 2 type @ to_le 2 machine @ to_le 4 version @ to_le 4 entry @ to_le 4 phoff
       @ to_le 4 shoff @ to_le 4 flags @ to_le 2 ehsize @ to_le 2 phentsize @ to_le 2 phnum
       @ to_le 2 shentsize @ to_le 2 shnum @ to_le 2 shstrndx"

definition Elf64_Ehdr_bytes ::
  "byte list \<Rightarrow> u16 \<Rightarrow> u16 \<Rightarrow> u32 \<Rightarrow> u64 \<Rightarrow> u64 \<Rightarrow> u64 \<Rightarrow> u32 \<Rightarrow> u16 \<Rightarrow> u16 \<Rightarrow> u16 \<Rightarrow> u16 \<Rightarrow> u16
     \<Rightarrow> u16 \<Rightarrow> byte list" where
  "Elf64_Ehdr_bytes ident type machine version entry phoff shoff flags ehsize phentsize phnum
       shentsize shnum shstrndx =
     ident @ to_le 2 type @ to_le 2 machine @ to_le 4 version @ to_le 8 entry @ to_le 8 phoff
       @ to_le 8 shoff @ to_le 4 flags @ to_le 2 ehsize @ to_le 2 phentsize @ to_le 2 phnum
       @ to_le 2 shentsize @ to_le 2 shnum @ to_le 2 shstrndx"

definition Elf32_Phdr_bytes ::
  "u32 \<Rightarrow> u32 \<Rightarrow> u32 \<Rightarrow> u32 \<Rightarrow> u32 \<Rightarrow> u32 \<Rightarrow> u32 \<Rightarrow> u32 \<Rightarrow> byte list" where
  "Elf32_Phdr_bytes type offset vaddr paddr filesz memsz flags align =
     to_le 4 type @ to_le 4 offset @ to_le 4 vaddr @ to_le 4 paddr @ to_le 4 filesz
       @ to_le 4 memsz @ to_le 4 flags @ to_le 4 align"

definition Elf64_Phdr_bytes ::
  "u32 \<Rightarrow> u32 \<Rightarrow> u64 \<Rightarrow> u64 \<Rightarrow> u64 \<Rightarrow> u64 \<Rightarrow> u64 \<Rightarrow> u64 \<Rightarrow> byte list" where
  "Elf64_Phdr_bytes type flags offset vaddr paddr filesz memsz align =
     to_le 4 type @ to_le 4 flags @ to_le 8 offset @ to_le 8 vaddr @ to_le 8 paddr
       @ to_le 8 filesz @ to_le 8 memsz @ to_le 8 align"

definition Elf32_Shdr_bytes ::
  "u32 \<Rightarrow> u32 \<Rightarrow> u32 \<Rightarrow> u32 \<Rightarrow> u32 \<Rightarrow> u32 \<Rightarrow> u32 \<Rightarrow> u32 \<Rightarrow> u32 \<Rightarrow> u32 \<Rightarrow> byte list" where
  "Elf32_Shdr_bytes nm type flags addr offset sz link info addralign entsize =
     to_le 4 nm @ to_le 4 type @ to_le 4 flags @ to_le 4 addr @ to_le 4 offset @ to_le 4 sz
       @ to_le 4 link @ to_le 4 info @ to_le 4 addralign @ to_le 4 entsize"

definition Elf64_Shdr_bytes ::
  "u32 \<Rightarrow> u32 \<Rightarrow> u64 \<Rightarrow> u64 \<Rightarrow> u64 \<Rightarrow> u64 \<Rightarrow> u32 \<Rightarrow> u32 \<Rightarrow> u64 \<Rightarrow> u64 \<Rightarrow> byte list" where
  "Elf64_Shdr_bytes nm type flags addr offset sz link info addralign entsize =
     to_le 4 nm @ to_le 4 type @ to_le 8 flags @ to_le 8 addr @ to_le 8 offset @ to_le 8 sz
       @ to_le 4 link @ to_le 4 info @ to_le 8 addralign @ to_le 8 entsize"

definition Elf32_Sym_bytes :: "u32 \<Rightarrow> u32 \<Rightarrow> u32 \<Rightarrow> byte \<Rightarrow> byte \<Rightarrow> u16 \<Rightarrow> byte list" where
  "Elf32_Sym_bytes nm val sz info other shndx =
     to_le 4 nm @ to_le 4 val @ to_le 4 sz @ [info, other] @ to_le 2 shndx"


definition Elf32_Dyn_bytes :: "u32 \<Rightarrow> u32 \<Rightarrow> byte list" where
  "Elf32_Dyn_bytes tag un = to_le 4 tag @ to_le 4 un"


section \<open>Example inputs\<close>

text \<open>
  A symbol table with the undefined symbol and the symbols \<^verbatim>\<open>x\<close> and \<^verbatim>\<open>b\<close>, with a
  legacy hash table (one bucket, chain 1, 2) and a GNU hash table with one bucket.  The
  first secondary hash value \<open>0x2B61D\<close> is \<^verbatim>\<open>gnu_hash("x")\<close>, with its low bit set; the
  second is \<^verbatim>\<open>gnu_hash("b")\<close>.
\<close>

definition example_symbols :: "elf_symbol list" where
  "example_symbols =
     [\<lparr>st_name = 0, st_value = 0, st_size = 0, st_info = 0, st_other = 0,
       st_shndx = 0, st_name_str = Some 0\<rparr>,
      \<lparr>st_name = 1, st_value = 0x1000, st_size = 0, st_info = 0, st_other = 0,
       st_shndx = 0, st_name_str = Some 1\<rparr>,
      \<lparr>st_name = 3, st_value = 0x2000, st_size = 0, st_info = 0, st_other = 0,
       st_shndx = 0, st_name_str = Some 3\<rparr>]"

definition example_tables :: elf_file where
  "example_tables = new_elf_file\<lparr>
     dynamic_segment_string_table := [0, 0x78, 0, 0x62, 0],
     dynamic_symbols := example_symbols,
     hash_buckets := [1],
     hash_chains := [0, 2, 0],
     gnu_hash_buckets := [1],
     gnu_hash_values := [0x2B61D, 0x2B607],
     gnu_hash_bloom_shift := 6,
     gnu_hash_omitted_symbols_count := 1,
     gnu_hash_bloom_words := [- 1]\<rparr>"

lemmas example_tables_defs =
  example_tables_def example_symbols_def new_elf_file_def closed_stream_def
  zero_header_def zero_ident_def

text \<open>
  A 64-bit file with three program headers: a loadable segment at \<open>0x2000\<close>, the
  dynamic segment at \<open>0x500\<close>, a loadable segment at \<open>0x1000\<close>.
\<close>

definition example_segments :: "byte list" where
  "example_segments = [
      0x7f, 0x45, 0x4c, 0x46, 0x02, 0x01, 0x01, 0, 0, 0, 0, 0, 0, 0, 0, 0,
      0x03, 0, 0x3e, 0, 0x01, 0, 0, 0, 0, 0, 0, 0, 0, 0, 0, 0,
      0x40, 0, 0, 0, 0, 0, 0, 0, 0, 0, 0, 0, 0, 0, 0, 0,
      0, 0, 0, 0, 0x40, 0, 0x38, 0, 0x03, 0, 0x40, 0, 0, 0, 0, 0,
      0x01, 0, 0, 0, 0x05, 0, 0, 0, 0, 0, 0, 0, 0, 0, 0, 0,
      0, 0x20, 0, 0, 0, 0, 0, 0, 0, 0x20, 0, 0, 0, 0, 0, 0,
      0, 0x01, 0, 0, 0, 0, 0, 0, 0, 0x01, 0, 0, 0, 0, 0, 0,
      0, 0x10, 0, 0, 0, 0, 0, 0, 0x02, 0, 0, 0, 0x06, 0, 0, 0,
      0, 0x01, 0, 0, 0, 0, 0, 0, 0, 0x05, 0, 0, 0, 0, 0, 0,
      0, 0x05, 0, 0, 0, 0, 0, 0, 0x50, 0, 0, 0, 0, 0, 0, 0,
      0x50, 0, 0, 0, 0, 0, 0, 0, 0x08, 0, 0, 0, 0, 0, 0, 0,
      0x01, 0, 0, 0, 0x06, 0, 0, 0, 0, 0x02, 0, 0, 0, 0, 0, 0,
      0, 0x10, 0, 0, 0, 0, 0, 0, 0, 0x10, 0, 0, 0, 0, 0, 0,
      0, 0x01, 0, 0, 0, 0, 0, 0, 0, 0x01, 0, 0, 0, 0, 0, 0,
      0, 0x10, 0, 0, 0, 0, 0, 0]"

definition example_segments_opened :: elf_file where
  "example_segments_opened =
     snd (read_elf_header (snd (open_file (File example_segments) new_elf_file)))"

text \<open>
  A 64-bit file with no program header and two sections: the null section and the
  section name table \<^verbatim>\<open>"\0.init\0"\<close> at offset 192, which bears the name \<^verbatim>\<open>.init\<close>
  itself and the address \<open>0x1000\<close>.  The second file differs in its first four bytes.
\<close>

definition example_init :: "byte list" where
  "example_init = [
      0x7f, 0x45, 0x4c, 0x46, 0x02, 0x01, 0x01, 0, 0, 0, 0, 0, 0, 0, 0, 0,
      0x03, 0, 0x3e, 0, 0x01, 0, 0, 0, 0, 0, 0, 0, 0, 0, 0, 0,
      0, 0, 0, 0, 0, 0, 0, 0, 0x40, 0, 0, 0, 0, 0, 0, 0,
      0, 0, 0, 0, 0x40, 0, 0x38, 0, 0, 0, 0x40, 0, 0x02, 0, 0x01, 0,
      0, 0, 0, 0, 0, 0, 0, 0, 0, 0, 0, 0, 0, 0, 0, 0,
      0, 0, 0, 0, 0, 0, 0, 0, 0, 0, 0, 0, 0, 0, 0, 0,
      0, 0, 0, 0, 0, 0, 0, 0, 0, 0, 0, 0, 0, 0, 0, 0,
      0, 0, 0, 0, 0, 0, 0, 0, 0, 0, 0, 0, 0, 0, 0, 0,
      0x01, 0, 0, 0, 0x03, 0, 0, 0, 0, 0, 0, 0, 0, 0, 0, 0,
      0, 0x10, 0, 0, 0, 0, 0, 0, 0xc0, 0, 0, 0, 0, 0, 0, 0,
      0x07, 0, 0, 0, 0, 0, 0, 0, 0, 0, 0, 0, 0, 0, 0, 0,
      0x01, 0, 0, 0, 0, 0, 0, 0, 0, 0, 0, 0, 0, 0, 0, 0,
      0, 0x2e, 0x69, 0x6e, 0x69, 0x74, 0]"



text \<open>The object that the constructor makes of \<open>example_init\<close>.\<close>

definition example_init_object :: elf_file where
  "example_init_object = new_elf_file\<lparr>
     binary_file := \<lparr>stream_bytes = example_init, stream_open = True, stream_fail = False,
       stream_pos = 199,
       stream_reads = [(0, 16), (0, 64), (0, 0), (64, 64), (128, 64), (192, 7)]\<rparr>,
     header := \<lparr>e_ident = \<lparr>ei_magic = ELFMAG, ei_class = 2, ei_data = 1, ei_version = 1,
         ei_osabi = 0, ei_abiversion = 0, ei_pad = [0, 0, 0, 0, 0, 0, 0]\<rparr>,
       e_type = 3, e_machine = 62, e_version = 1, e_entry = 0, e_phoff = 0, e_shoff = 64,
       e_flags = 0, e_ehsize = 64, e_phentsize = 56, e_phnum = 0, e_shentsize = 64,
       e_shnum = 2, e_shstrndx = 1\<rparr>,
     section_headers :=
       [zero_section_header\<lparr>sh_name_str := Some 0\<rparr>,
        \<lparr>sh_name = 1, sh_type = 3, sh_flags = 0, sh_addr = 0x1000, sh_offset = 192,
         sh_size = 7, sh_link = 0, sh_info = 0, sh_addralign = 1, sh_entsize = 0,
         sh_name_str = Some 1\<rparr>],
     section_header_string_table := [0, 0x2e, 0x69, 0x6e, 0x69, 0x74, 0],
     init_functions := [0x1000],
     base_address := 0xFFFFFFFFFFFFFFFF\<rparr>"

text \<open>
  Two objects with section headers read, of a 64-bit and a 32-bit file, with the
  sections \<^verbatim>\<open>.shstrtab\<close>, \<^verbatim>\<open>.preinit_array\<close>, \<^verbatim>\<open>.init\<close> (at the address \<open>0x1000\<close>),
  \<^verbatim>\<open>.init_array\<close>, \<^verbatim>\<open>.fini_array\<close> and \<^verbatim>\<open>.fini\<close> (at \<open>0x2000\<close>).  The files hold
  the five array entries \<open>0x1100\<close>, \<open>0x1200\<close>, \<open>0x1300\<close>, \<open>0x1400\<close>, \<open>0x1500\<close> at
  their start (as far as these examples go, nothing else of the files matters).
\<close>

definition example_sections_64 :: elf_file where
  "example_sections_64 = new_elf_file\<lparr>
     binary_file := \<lparr>stream_bytes = [
      0, 0x11, 0, 0, 0, 0, 0, 0, 0, 0x12, 0, 0, 0, 0, 0, 0, 0, 0x13, 0, 0,
      0, 0, 0, 0, 0, 0x14, 0, 0, 0, 0, 0, 0, 0, 0x15, 0, 0, 0, 0, 0, 0],
       stream_open = True, stream_fail = False, stream_pos = 0, stream_reads = []\<rparr>,
     header := zero_header\<lparr>e_ident := zero_ident\<lparr>ei_class := 2\<rparr>\<rparr>,
     section_headers :=
       [\<lparr>sh_name = 0, sh_type = 0, sh_flags = 0, sh_addr = 0x0, sh_offset = 0,
         sh_size = 0, sh_link = 0, sh_info = 0, sh_addralign = 0, sh_entsize = 0,
         sh_name_str = Some 0\<rparr>,
        \<lparr>sh_name = 1, sh_type = 3, sh_flags = 0, sh_addr = 0x0, sh_offset = 0,
         sh_size = 0, sh_link = 0, sh_info = 0, sh_addralign = 1, sh_entsize = 0,
         sh_name_str = Some 1\<rparr>,
        \<lparr>sh_name = 11, sh_type = 16, sh_flags = 0, sh_addr = 0x3000, sh_offset = 0,
         sh_size = 8, sh_link = 0, sh_info = 0, sh_addralign = 8, sh_entsize = 0,
         sh_name_str = Some 11\<rparr>,
        \<lparr>sh_name = 26, sh_type = 1, sh_flags = 0, sh_addr = 0x1000, sh_offset = 0,
         sh_size = 0, sh_link = 0, sh_info = 0, sh_addralign = 4, sh_entsize = 0,
         sh_name_str = Some 26\<rparr>,
        \<lparr>sh_name = 32, sh_type = 14, sh_flags = 0, sh_addr = 0x3010, sh_offset = 8,
         sh_size = 16, sh_link = 0, sh_info = 0, sh_addralign = 8, sh_entsize = 0,
         sh_name_str = Some 32\<rparr>,
        \<lparr>sh_name = 44, sh_type = 15, sh_flags = 0, sh_addr = 0x3020, sh_offset = 24,
         sh_size = 16, sh_link = 0, sh_info = 0, sh_addralign = 8, sh_entsize = 0,
         sh_name_str = Some 44\<rparr>,
        \<lparr>sh_name = 56, sh_type = 1, sh_flags = 0, sh_addr = 0x2000, sh_offset = 0,
         sh_size = 0, sh_link = 0, sh_info = 0, sh_addralign = 4, sh_entsize = 0,
         sh_name_str = Some 56\<rparr>],
     section_header_string_table := [
      0, 0x2e, 0x73, 0x68, 0x73, 0x74, 0x72, 0x74, 0x61, 0x62, 0, 0x2e, 0x70, 0x72, 0x65, 0x69, 0x6e, 0x69, 0x74, 0x5f,
      0x61, 0x72, 0x72, 0x61, 0x79, 0, 0x2e, 0x69, 0x6e, 0x69, 0x74, 0, 0x2e, 0x69, 0x6e, 0x69, 0x74, 0x5f, 0x61, 0x72,
      0x72, 0x61, 0x79, 0, 0x2e, 0x66, 0x69, 0x6e, 0x69, 0x5f, 0x61, 0x72, 0x72, 0x61, 0x79, 0, 0x2e, 0x66, 0x69, 0x6e,
      0x69, 0]\<rparr>"

definition example_sections_32 :: elf_file where
  "example_sections_32 = new_elf_file\<lparr>
     binary_file := \<lparr>stream_bytes = [
      0, 0x11, 0, 0, 0, 0x12, 0, 0, 0, 0x13, 0, 0, 0, 0x14, 0, 0, 0, 0x15, 0, 0],
       stream_open = True, stream_fail = False, stream_pos = 0, stream_reads = []\<rparr>,
     header := zero_header\<lparr>e_ident := zero_ident\<lparr>ei_class := 1\<rparr>\<rparr>,
     section_headers :=
       [\<lparr>sh_name = 0, sh_type = 0, sh_flags = 0, sh_addr = 0x0, sh_offset = 0,
         sh_size = 0, sh_link = 0, sh_info = 0, sh_addralign = 0, sh_entsize = 0,
         sh_name_str = Some 0\<rparr>,
        \<lparr>sh_name = 1, sh_type = 3, sh_flags = 0, sh_addr = 0x0, sh_offset = 0,
         sh_size = 0, sh_link = 0, sh_info = 0, sh_addralign = 1, sh_entsize = 0,
         sh_name_str = Some 1\<rparr>,
        \<lparr>sh_name = 11, sh_type = 16, sh_flags = 0, sh_addr = 0x3000, sh_offset = 0,
         sh_size = 4, sh_link = 0, sh_info = 0, sh_addralign = 4, sh_entsize = 0,
         sh_name_str = Some 11\<rparr>,
        \<lparr>sh_name = 26, sh_type = 1, sh_flags = 0, sh_addr = 0x1000, sh_offset = 0,
         sh_size = 0, sh_link = 0, sh_info = 0, sh_addralign = 4, sh_entsize = 0,
         sh_name_str = Some 26\<rparr>,
        \<lparr>sh_name = 32, sh_type = 14, sh_flags = 0, sh_addr = 0x3010, sh_offset = 4,
         sh_size = 8, sh_link = 0, sh_info = 0, sh_addralign = 4, sh_entsize = 0,
         sh_name_str = Some 32\<rparr>,
        \<lparr>sh_name = 44, sh_type = 15, sh_flags = 0, sh_addr = 0x3020, sh_offset = 12,
         sh_size = 8, sh_link = 0, sh_info = 0, sh_addralign = 4, sh_entsize = 0,
         sh_name_str = Some 44\<rparr>,
        \<lparr>sh_name = 56, sh_type = 1, sh_flags = 0, sh_addr = 0x2000, sh_offset = 0,
         sh_size = 0, sh_link = 0, sh_info = 0, sh_addralign = 4, sh_entsize = 0,
         sh_name_str = Some 56\<rparr>],
     section_header_string_table := [
      0, 0x2e, 0x73, 0x68, 0x73, 0x74, 0x72, 0x74, 0x61, 0x62, 0, 0x2e, 0x70, 0x72, 0x65, 0x69, 0x6e, 0x69, 0x74, 0x5f,
      0x61, 0x72, 0x72, 0x61, 0x79, 0, 0x2e, 0x69, 0x6e, 0x69, 0x74, 0, 0x2e, 0x69, 0x6e, 0x69, 0x74, 0x5f, 0x61, 0x72,
      0x72, 0x61, 0x79, 0, 0x2e, 0x66, 0x69, 0x6e, 0x69, 0x5f, 0x61, 0x72, 0x72, 0x61, 0x79, 0, 0x2e, 0x66, 0x69, 0x6e,
      0x69, 0]\<rparr>"



text \<open>
  The same dynamic segment, string table and symbols as a 32-bit file: the entries of
  the segment take 8 bytes each and the symbols 16, so the tables stand at 32 and 40.
\<close>

definition example_dynamic_32 :: elf_file where
  "example_dynamic_32 = new_elf_file\<lparr>
     binary_file := \<lparr>stream_bytes =
       Elf32_Dyn_bytes 5 0x1020 @ Elf32_Dyn_bytes 10 4
       @ Elf32_Dyn_bytes 6 0x1028 @ Elf32_Dyn_bytes 11 16
       @ [0, 0x61, 0x62, 0, 0, 0, 0, 0]
       @ Elf32_Sym_bytes 0 0 0 0 0 0
       @ Elf32_Sym_bytes 1 0x1100 8 0x12 0 7,
       stream_open = True, stream_fail = False, stream_pos = 0, stream_reads = []\<rparr>,
     header := zero_header\<lparr>e_ident := zero_ident\<lparr>ei_class := 1\<rparr>\<rparr>,
     program_headers :=
       [\<lparr>p_type = 1, p_flags = 5, p_offset = 0, p_vaddr = 0x1000, p_paddr = 0x1000,
         p_filesz = 72, p_memsz = 72, p_align = 0x1000\<rparr>,
        \<lparr>p_type = 2, p_flags = 6, p_offset = 0, p_vaddr = 0x1000, p_paddr = 0x1000,
         p_filesz = 32, p_memsz = 32, p_align = 4\<rparr>],
     base_address := 0x1000,
     section_headers :=
       [zero_section_header\<lparr>sh_type := 11, sh_offset := 40, sh_size := 32, sh_entsize := 16,
          sh_name_str := Some 0\<rparr>],
     section_header_string_table := [0]\<rparr>"

section \<open>Properties of the symbol lookup\<close>






text \<open>
  C2.  In \<open>example_tables\<close> the first entry of the only chain carries the stop bit (its
  secondary hash value is odd) and does not match the name \<^verbatim>\<open>b\<close>.  The hash values
  differ, so the loop takes its \<^verbatim>\<open>continue\<close> before it looks at the stop bit: the walk
  goes on to the next symbol and returns it.
\<close>

theorem gnu_lookup_scans_past_stop_bit:
  "gnu_hash_values example_tables ! 0 AND 1 = 1
   \<and> lookup_gnu_symbol_probes example_tables [0x62]
       = (Returns (Some 2), [Hash_checked 1, Hash_checked 2, Name_compared 2])"
  by (simp add: example_tables_defs lookup_gnu_symbol_probes_def gnu_hash_def c_chars_def
      at_vec_def gnu_bloom_index_def gnu_bloom_bitmask_def STN_UNDEF_def name_matches_def)

text \<open>
  The walk itself is bounded by the two vectors: it runs through at most as many
  iterations as the shorter of the two remaining ranges has entries.
\<close>

lemma gnu_chain_walk_bounded:
  "length (filter (\<lambda>p. \<exists>j. p = Hash_checked j) (snd (gnu_chain_walk st name h i syms vs)))
     \<le> min (length syms) (length vs)"
  by (induction st name h i syms vs rule: gnu_chain_walk.induct)
     (auto split: prod.splits option.splits bool.splits)

text \<open>
  C10.  A bucket that holds an index beyond the number of symbols makes
  \<^verbatim>\<open>std::advance\<close> move both iterators past the end of their vectors, before the loop and
  its two comparisons with \<^verbatim>\<open>cend()\<close> are reached.
\<close>

theorem gnu_lookup_start_outside_vectors:
  "length (dynamic_symbols example_tables) = 3
   \<and> lookup_gnu_symbol (example_tables\<lparr>gnu_hash_buckets := [7]\<rparr>) [0x62]
       = Undefined_behaviour"
  by (simp add: example_tables_defs lookup_gnu_symbol_def lookup_gnu_symbol_probes_def
      gnu_hash_def c_chars_def at_vec_def gnu_bloom_index_def gnu_bloom_bitmask_def
      STN_UNDEF_def)







section \<open>Properties of the decoding steps\<close>

lemma foldl_min_Min:
  fixes b0 :: "'a::linorder"
  shows "foldl min b0 xs = Min (set (b0 # xs))"
proof (induction xs arbitrary: b0)
  case Nil
  then show ?case by simp
next
  case (Cons x xs)
  show ?case
  proof (cases "xs = []")
    case True
    then show ?thesis by (simp add: min.commute)
  next
    case False
    then show ?thesis using Cons.IH[of "min b0 x"] by (simp add: min.assoc)
  qed
qed

lemma lowest_load_address_filter:
  "foldl (\<lambda>b ph. if p_type ph = PT_LOAD then min b (p_vaddr ph) else b) b0 phs
     = foldl min b0 (map p_vaddr (filter (\<lambda>ph. p_type ph = PT_LOAD) phs))"
  by (induction phs arbitrary: b0) simp_all

lemma lowest_load_address_eq:
  "lowest_load_address phs =
     (if filter (\<lambda>ph. p_type ph = PT_LOAD) phs = [] then 0xFFFFFFFFFFFFFFFF
      else Min (set (map p_vaddr (filter (\<lambda>ph. p_type ph = PT_LOAD) phs))))"
proof -
  define xs where "xs = map p_vaddr (filter (\<lambda>ph. p_type ph = PT_LOAD) phs)"
  have top: "min (0xFFFFFFFFFFFFFFFF :: u64) x = x" for x
  proof -
    have "(0xFFFFFFFFFFFFFFFF :: u64) = - 1" by simp
    then show ?thesis by (simp only: min_def word_order.extremum_unique) simp
  qed
  have eq: "lowest_load_address phs = Min (set (0xFFFFFFFFFFFFFFFF # xs))"
    by (simp only: lowest_load_address_def lowest_load_address_filter foldl_min_Min xs_def)
  show ?thesis
  proof (cases "xs = []")
    case True
    then show ?thesis using eq by (simp add: xs_def)
  next
    case False
    then have "Min (set (0xFFFFFFFFFFFFFFFF # xs)) = Min (set xs)"
      by (simp add: top del: set_map)
    then show ?thesis using False eq by (simp add: xs_def del: set_map)
  qed
qed

lemma read_program_headers_base:
  assumes "read_program_headers st = (True, st')"
  shows "base_address st' = lowest_load_address (program_headers st')"
  using assms
  by (auto simp: read_program_headers_def fail_with_def Let_def split: if_splits prod.splits)

text \<open>
  C6.  When \<^verbatim>\<open>read_program_headers\<close> has read the segment table, the base address is
  the least virtual address of the segments of type \<^verbatim>\<open>PT_LOAD\<close>, or all ones when no
  segment is loadable; \<^verbatim>\<open>get_base_address\<close> returns the stored value.
\<close>

theorem base_address_lowest_loadable:
  assumes "read_program_headers st = (True, st')"
    and "loadable = filter (\<lambda>ph. p_type ph = PT_LOAD) (program_headers st')"
  shows "base_address st' =
           (if loadable = [] then 0xFFFFFFFFFFFFFFFF else Min (set (map p_vaddr loadable)))
         \<and> get_base_address st' = base_address st'"
  using read_program_headers_base[OF assms(1)] assms(2)
  by (simp only: lowest_load_address_eq get_base_address_def)

theorem base_address_lowest_loadable_witness:
  "fst (read_program_headers example_segments_opened)
   \<and> map p_vaddr (filter (\<lambda>ph. p_type ph = PT_LOAD)
         (program_headers (snd (read_program_headers example_segments_opened))))
       = [0x2000, 0x1000]
   \<and> base_address (snd (read_program_headers example_segments_opened)) = 0x1000
   \<and> get_base_address (snd (read_program_headers example_segments_opened)) = 0x1000"
proof -
  let ?r = "read_program_headers example_segments_opened"
  define loadable where
    "loadable = filter (\<lambda>ph. p_type ph = PT_LOAD) (program_headers (snd ?r))"
  have ok: "fst ?r = True"
    by code_simp
  have vaddrs: "map p_vaddr loadable = [0x2000, 0x1000]"
    unfolding loadable_def by code_simp
  then have ne: "loadable \<noteq> []"
    by auto
  have run: "?r = (True, snd ?r)"
    using ok by (metis prod.collapse)
  show ?thesis
    using base_address_lowest_loadable[OF run loadable_def] ok vaddrs ne
    by (simp add: loadable_def[symmetric])
qed

section \<open>Properties of the constructor\<close>










section \<open>What each public operation assigns\<close>

lemma keeps_simps [simp]:
  "keeps v st (Returns (ok, st')) = (v st' = v st)"
  "keeps v st Throws_out_of_range"
  "keeps v st Undefined_behaviour"
  by (simp_all add: keeps_def)

lemma keeps_Returns_pair: "keeps v st (Returns p) = (v (snd p) = v st)"
  by (cases p) simp

lemma keeps_trans: "v st1 = v st \<Longrightarrow> keeps v st1 r \<Longrightarrow> keeps v st r"
  by (auto simp: keeps_def split: outcome.splits prod.splits)

lemma keeps_and_then:
  assumes "keeps v st r" and "\<And>st1. v st1 = v st \<Longrightarrow> keeps v st1 (g st1)"
  shows "keeps v st (and_then r g)"
proof (cases r)
  case (Returns p)
  obtain ok st1 where p: "p = (ok, st1)" by (cases p)
  have "v st1 = v st" using assms(1) Returns p by simp
  then show ?thesis
    using assms(2)[of st1] Returns p
    by (auto simp: and_then_def bind_outcome_def intro: keeps_trans)
qed (simp_all add: and_then_def bind_outcome_def)

lemma keeps_bind:
  assumes "\<And>x. keeps v st (f x)"
  shows "keeps v st (bind_outcome r f)"
  using assms by (cases r) (simp_all add: bind_outcome_def)

lemma dynamic_part_io [simp]:
  "dynamic_part (file_clear st) = dynamic_part st"
  "dynamic_part (file_seekg off st) = dynamic_part st"
  "dynamic_part (snd (file_read n st)) = dynamic_part st"
  "dynamic_part (snd (fail_with m st)) = dynamic_part st"
  "dynamic_part (st\<lparr>binary_file := a\<rparr>) = dynamic_part st"
  "dynamic_part (st\<lparr>last_error := b\<rparr>) = dynamic_part st"
  "dynamic_part (st\<lparr>header := c\<rparr>) = dynamic_part st"
  "dynamic_part (st\<lparr>program_headers := d\<rparr>) = dynamic_part st"
  "dynamic_part (st\<lparr>section_headers := e\<rparr>) = dynamic_part st"
  "dynamic_part (st\<lparr>section_header_string_table := f\<rparr>) = dynamic_part st"
  "dynamic_part (st\<lparr>init_functions := g\<rparr>) = dynamic_part st"
  "dynamic_part (st\<lparr>fini_functions := h\<rparr>) = dynamic_part st"
  "dynamic_part (st\<lparr>base_address := i\<rparr>) = dynamic_part st"
  by (simp_all add: dynamic_part_def file_clear_def file_seekg_def file_read_def fail_with_def
      split: prod.splits)

lemma dynamic_part_read_elf_header:
  "dynamic_part (snd (read_elf_header st)) = dynamic_part st"
  by (simp add: read_elf_header_def Let_def case_prod_beta)

lemma dynamic_part_read_program_headers:
  "dynamic_part (snd (read_program_headers st)) = dynamic_part st"
  by (simp add: read_program_headers_def Let_def case_prod_beta)

lemma dynamic_part_read_section_headers_64:
  "dynamic_part (snd (read_section_headers_64 is st)) = dynamic_part st"
  by (induction "is" st rule: read_section_headers_64.induct)
     (simp_all add: Let_def case_prod_beta)

lemma dynamic_part_read_section_names:
  "keeps dynamic_part st (read_section_names st)"
  by (simp add: read_section_names_def Let_def case_prod_beta keeps_Returns_pair)

lemma dynamic_part_read_section_headers:
  "keeps dynamic_part st (read_section_headers st)"
  unfolding read_section_headers_def Let_def case_prod_beta
  by (auto simp: keeps_Returns_pair dynamic_part_read_section_headers_64
      intro!: keeps_and_then keeps_trans[OF _ dynamic_part_read_section_names])

lemma dynamic_part_read_preinit_array:
  "keeps dynamic_part st (read_preinit_array st)"
  unfolding read_preinit_array_def
  by (rule keeps_bind) (simp add: Let_def case_prod_beta keeps_Returns_pair split: option.splits)

lemma dynamic_part_append_init_section:
  "keeps dynamic_part st (append_init_section st)"
  unfolding append_init_section_def
  by (rule keeps_bind) (simp add: Let_def case_prod_beta keeps_Returns_pair split: option.splits)

lemma dynamic_part_read_init_array:
  "keeps dynamic_part st (read_init_array st)"
  unfolding read_init_array_def
  by (rule keeps_bind) (simp add: Let_def case_prod_beta keeps_Returns_pair split: option.splits)

lemma dynamic_part_read_init_functions:
  "keeps dynamic_part st (read_init_functions st)"
  unfolding read_init_functions_def
  by (auto simp: keeps_Returns_pair
      intro!: keeps_and_then dynamic_part_read_preinit_array
        keeps_trans[OF _ dynamic_part_append_init_section]
        keeps_trans[OF _ dynamic_part_read_init_array])

lemma dynamic_part_read_fini_array:
  "keeps dynamic_part st (read_fini_array st)"
  unfolding read_fini_array_def
  by (rule keeps_bind) (simp add: Let_def case_prod_beta keeps_Returns_pair split: option.splits)

lemma dynamic_part_append_fini_section:
  "keeps dynamic_part st (append_fini_section st)"
  unfolding append_fini_section_def
  by (rule keeps_bind) (simp add: Let_def case_prod_beta keeps_Returns_pair split: option.splits)

lemma dynamic_part_read_term_functions:
  "keeps dynamic_part st (read_term_functions st)"
  unfolding read_term_functions_def
  by (auto intro!: keeps_and_then dynamic_part_read_fini_array
        keeps_trans[OF _ dynamic_part_append_fini_section])

lemma dynamic_part_construct:
  assumes "construct src = Returns st"
  shows "dynamic_part st = dynamic_part new_elf_file"
proof (cases src)
  case No_such_file
  then show ?thesis using assms by (auto simp: construct_def open_file_def fail_with_def dynamic_part_def)
next
  case Unopenable
  then show ?thesis using assms by (auto simp: construct_def open_file_def fail_with_def dynamic_part_def)
next
  case (File bs)
  define st0 where "st0 = snd (open_file (File bs) new_elf_file)"
  have st0: "dynamic_part st0 = dynamic_part new_elf_file"
    by (simp add: st0_def open_file_def)
  let ?r = "and_then (and_then (and_then (and_then
               (Returns (read_elf_header st0))
               (\<lambda>st. Returns (read_program_headers st)))
               read_section_headers)
               read_init_functions)
               read_term_functions"
  have k: "keeps dynamic_part st0 ?r"
    by (auto simp: keeps_Returns_pair dynamic_part_read_elf_header dynamic_part_read_program_headers
      intro!: keeps_and_then
        keeps_trans[OF _ dynamic_part_read_section_headers]
        keeps_trans[OF _ dynamic_part_read_init_functions]
        keeps_trans[OF _ dynamic_part_read_term_functions])
  have "construct src = bind_outcome ?r (\<lambda>(ok, st). Returns st)"
    using File by (simp add: construct_def open_file_def st0_def)
  then obtain ok where "?r = Returns (ok, st)"
    using assms by (auto simp: bind_outcome_def split: outcome.splits)
  then show ?thesis using k st0 by simp
qed


lemma lifecycle_part_io [simp]:
  "lifecycle_part (file_clear st) = lifecycle_part st"
  "lifecycle_part (file_seekg off st) = lifecycle_part st"
  "lifecycle_part (snd (file_read n st)) = lifecycle_part st"
  "lifecycle_part (snd (fail_with m st)) = lifecycle_part st"
  "lifecycle_part (st\<lparr>binary_file := a\<rparr>) = lifecycle_part st"
  "lifecycle_part (st\<lparr>last_error := b\<rparr>) = lifecycle_part st"
  "lifecycle_part (st\<lparr>dynamic_entries := c\<rparr>) = lifecycle_part st"
  "lifecycle_part (st\<lparr>dynamic_segment_string_table := d\<rparr>) = lifecycle_part st"
  "lifecycle_part (st\<lparr>so_name := e\<rparr>) = lifecycle_part st"
  "lifecycle_part (st\<lparr>needed_libraries := f\<rparr>) = lifecycle_part st"
  "lifecycle_part (st\<lparr>dynamic_symbols := g\<rparr>) = lifecycle_part st"
  "lifecycle_part (st\<lparr>hash_buckets := h\<rparr>) = lifecycle_part st"
  "lifecycle_part (st\<lparr>hash_chains := i\<rparr>) = lifecycle_part st"
  "lifecycle_part (st\<lparr>gnu_hash_buckets := j\<rparr>) = lifecycle_part st"
  "lifecycle_part (st\<lparr>gnu_hash_values := k\<rparr>) = lifecycle_part st"
  "lifecycle_part (st\<lparr>gnu_hash_bloom_shift := l\<rparr>) = lifecycle_part st"
  "lifecycle_part (st\<lparr>gnu_hash_omitted_symbols_count := m'\<rparr>) = lifecycle_part st"
  "lifecycle_part (st\<lparr>gnu_hash_bloom_words := n'\<rparr>) = lifecycle_part st"
  "lifecycle_part (store_rel_entries grp rels st) = lifecycle_part st"
  "lifecycle_part (store_rela_entries grp relas st) = lifecycle_part st"
  by (simp_all add: lifecycle_part_def file_clear_def file_seekg_def file_read_def fail_with_def
      store_rel_entries_def store_rela_entries_def
      split: prod.splits relocation_group.splits)

lemma lifecycle_part_read_dynamic_entries:
  "lifecycle_part (snd (read_dynamic_entries ph st)) = lifecycle_part st"
  by (simp add: read_dynamic_entries_def Let_def case_prod_beta)

lemma lifecycle_part_extract_fold:
  "lifecycle_part (snd (foldl extract_dynamic_entry acc es)) = lifecycle_part (snd acc)"
  by (induction es arbitrary: acc)
     (simp_all add: extract_dynamic_entry_def case_prod_beta)

lemma lifecycle_part_extract_dynamic_info:
  "lifecycle_part (snd (extract_dynamic_info st)) = lifecycle_part st"
  by (simp add: extract_dynamic_info_def lifecycle_part_extract_fold)

lemma lifecycle_part_read_dynamic_string_table:
  "lifecycle_part (snd (read_dynamic_string_table b info st)) = lifecycle_part st"
  by (simp add: read_dynamic_string_table_def Let_def case_prod_beta)

lemma lifecycle_part_read_symbols_64:
  "lifecycle_part (snd (read_symbols_64 is st)) = lifecycle_part st"
  by (induction "is" st rule: read_symbols_64.induct)
     (simp_all add: Let_def case_prod_beta)

lemma lifecycle_part_read_dynamic_symbols:
  "lifecycle_part (snd (read_dynamic_symbols info sh st)) = lifecycle_part st"
  by (simp add: read_dynamic_symbols_def Let_def case_prod_beta lifecycle_part_read_symbols_64)

lemma lifecycle_part_parse_hash_section:
  "lifecycle_part (snd (parse_hash_section sh st)) = lifecycle_part st"
  by (simp add: parse_hash_section_def Let_def case_prod_beta)

lemma lifecycle_part_parse_gnu_hash_values:
  "lifecycle_part (snd (parse_gnu_hash_values st)) = lifecycle_part st"
  by (simp add: parse_gnu_hash_values_def Let_def case_prod_beta)

lemma lifecycle_part_parse_gnu_hash_buckets:
  "lifecycle_part (snd (parse_gnu_hash_buckets n st)) = lifecycle_part st"
  by (simp add: parse_gnu_hash_buckets_def Let_def case_prod_beta
      lifecycle_part_parse_gnu_hash_values)

lemma lifecycle_part_parse_gnu_hash_section:
  "lifecycle_part (snd (parse_gnu_hash_section sh st)) = lifecycle_part st"
  by (simp add: parse_gnu_hash_section_def Let_def case_prod_beta
      lifecycle_part_parse_gnu_hash_buckets)

lemma lifecycle_part_parse_hash_sections:
  "lifecycle_part (snd (parse_hash_sections shs st)) = lifecycle_part st"
  by (induction shs arbitrary: st)
     (simp_all add: case_prod_beta lifecycle_part_parse_hash_section
        lifecycle_part_parse_gnu_hash_section)

lemma lifecycle_part_parse_hash_tables:
  "lifecycle_part (snd (parse_hash_tables st)) = lifecycle_part st"
  by (simp add: parse_hash_tables_def lifecycle_part_parse_hash_sections)

lemma lifecycle_part_parse_rel_section:
  "keeps lifecycle_part st (parse_rel_section sh st)"
  unfolding parse_rel_section_def Let_def case_prod_beta
  by (auto simp: keeps_Returns_pair intro!: keeps_bind split: option.splits)

lemma lifecycle_part_parse_rela_section:
  "keeps lifecycle_part st (parse_rela_section sh st)"
  unfolding parse_rela_section_def Let_def case_prod_beta
  by (auto simp: keeps_Returns_pair intro!: keeps_bind split: option.splits)

lemma keeps_continue:
  assumes "keeps v st r" and "\<And>st1. keeps v st1 (g st1)"
  shows "keeps v st
           (case r of
              Returns (ok, st1) \<Rightarrow> if ok then g st1 else Returns (False, st1)
            | Throws_out_of_range \<Rightarrow> Throws_out_of_range
            | Undefined_behaviour \<Rightarrow> Undefined_behaviour)"
proof (cases r)
  case (Returns p)
  obtain ok st1 where p: "p = (ok, st1)" by (cases p)
  have "v st1 = v st" using assms(1) Returns p by simp
  then show ?thesis
    using assms(2)[of st1] Returns p by (auto intro: keeps_trans)
qed simp_all

lemma lifecycle_part_parse_relocation_sections:
  "keeps lifecycle_part st (parse_relocation_sections shs st)"
proof (induction shs arbitrary: st)
  case Nil
  then show ?case by simp
next
  case (Cons sh rest)
  show ?case
    unfolding parse_relocation_sections.simps
    by (intro keeps_continue Cons.IH lifecycle_part_parse_rel_section
          lifecycle_part_parse_rela_section | simp only: if_split | intro conjI impI)+
qed

lemma lifecycle_part_parse_relocations:
  "keeps lifecycle_part st (parse_relocations st)"
  by (simp add: parse_relocations_def keeps_Returns_pair
      lifecycle_part_parse_relocation_sections)

lemma lifecycle_part_read_symbol_table:
  "keeps lifecycle_part st (read_symbol_table info st)"
  unfolding read_symbol_table_def
  by (auto simp: keeps_Returns_pair lifecycle_part_read_dynamic_symbols
        lifecycle_part_parse_hash_tables
      split: option.splits
      intro!: keeps_and_then keeps_trans[OF _ lifecycle_part_parse_relocations])

lemma lifecycle_part_parse_dynamic_segment:
  "keeps lifecycle_part st (parse_dynamic_segment table_base st)"
  unfolding parse_dynamic_segment_def case_prod_beta
  by (auto simp: keeps_Returns_pair lifecycle_part_read_dynamic_entries
        lifecycle_part_extract_dynamic_info lifecycle_part_read_dynamic_string_table
      split: option.splits
      intro!: keeps_and_then keeps_trans[OF _ lifecycle_part_read_symbol_table])

text \<open>
  C8, as stated, fails: the constructor itself calls \<^verbatim>\<open>read_init_functions\<close> and
  \<^verbatim>\<open>read_term_functions\<close>.  After construction alone the initializer list of
  \<open>example_init\<close> holds the address of its \<^verbatim>\<open>.init\<close> section.
\<close>

theorem lifecycle_lists_at_construction_counterexample:
  "outcome_map init_functions (construct (File example_init)) = Returns [0x1000]"
  by code_simp

text \<open>
  C8, amended.  The constructor assigns none of the members that belong to the dynamic
  segment, the hash tables and the relocations: they are empty in every constructed
  object.  \<^verbatim>\<open>parse_dynamic_segment\<close>, when it returns, has not changed the two
  lifecycle lists, which the constructor has assembled.
\<close>

theorem dynamic_parts_on_demand:
  "(construct src = Returns st \<longrightarrow>
      dynamic_entries st = [] \<and> dynamic_segment_string_table st = []
      \<and> needed_libraries st = [] \<and> dynamic_symbols st = []
      \<and> hash_buckets st = [] \<and> hash_chains st = []
      \<and> gnu_hash_buckets st = [] \<and> gnu_hash_values st = [] \<and> gnu_hash_bloom_words st = []
      \<and> plt_rel_entries st = [] \<and> dyn_rel_entries st = []
      \<and> plt_rela_entries st = [] \<and> dyn_rela_entries st = [])
   \<and> (parse_dynamic_segment table_base st = Returns (ok, st') \<longrightarrow>
        init_functions st' = init_functions st \<and> fini_functions st' = fini_functions st)"
proof (intro conjI impI)
  assume "parse_dynamic_segment table_base st = Returns (ok, st')"
  then have "lifecycle_part st' = lifecycle_part st"
    using lifecycle_part_parse_dynamic_segment[of st table_base] by simp
  then show "init_functions st' = init_functions st" "fini_functions st' = fini_functions st"
    by (simp_all add: lifecycle_part_def)
next
  assume "construct src = Returns st"
  then have "dynamic_part st = dynamic_part new_elf_file"
    by (rule dynamic_part_construct)
  then show "dynamic_entries st = []" "dynamic_segment_string_table st = []"
      "needed_libraries st = []" "dynamic_symbols st = []"
      "hash_buckets st = []" "hash_chains st = []"
      "gnu_hash_buckets st = []" "gnu_hash_values st = []" "gnu_hash_bloom_words st = []"
      "plt_rel_entries st = []" "dyn_rel_entries st = []"
      "plt_rela_entries st = []" "dyn_rela_entries st = []"
    by (simp_all add: dynamic_part_def new_elf_file_def)
qed


theorem dynamic_parts_on_demand_witness:
  "construct (File example_init) = Returns example_init_object
   \<and> parse_dynamic_segment 0 example_init_object = Returns (False, example_init_object)
   \<and> dynamic_entries example_init_object = []
   \<and> dynamic_symbols example_init_object = []
   \<and> gnu_hash_buckets example_init_object = []
   \<and> init_functions example_init_object = [0x1000]"
proof -
  have c: "construct (File example_init) = Returns example_init_object"
    by code_simp
  have p: "parse_dynamic_segment 0 example_init_object = Returns (False, example_init_object)"
    by code_simp
  have i: "init_functions example_init_object = [0x1000]"
    by (simp add: example_init_object_def)
  show ?thesis
    using dynamic_parts_on_demand[of "File example_init" example_init_object 0 False
        example_init_object] c p i
    by simp
qed

section \<open>The lifecycle lists\<close>

lemma le_word_to_le:
  "(le_word (to_le n (w :: 'a::len word)) :: 'b::len word) = ucast (take_bit (8 * n) w)"
proof (induction n arbitrary: w)
  case 0
  then show ?case by simp
next
  case (Suc n)
  have "(le_word (to_le (Suc n) w) :: 'b word)
      = ucast (ucast w :: byte) OR push_bit 8 (ucast (take_bit (8 * n) (drop_bit 8 w)))"
    by (simp add: Suc.IH)
  also have "\<dots> = ucast (take_bit (8 * Suc n) w)"
    by (rule bit_word_eqI) (auto simp: bit_simps)
  finally show ?case .
qed

lemma length_to_le [simp]: "length (to_le n w) = n"
  by (induction n arbitrary: w) simp_all

lemma chunks_concat:
  assumes "\<forall>c \<in> set cs. length c = w"
  shows "chunks w (length cs) (concat cs @ rest) = cs"
  using assms
proof (induction cs arbitrary: rest rule: rev_induct)
  case Nil
  then show ?case by (simp add: chunks_def)
next
  case (snoc c cs)
  have len: "length (concat cs) = length cs * w"
    using snoc.prems by (induction cs) auto
  have "chunks w (length cs) (concat cs @ (c @ rest)) = cs"
    using snoc.IH[of "c @ rest"] snoc.prems by simp
  moreover have "take w (drop (length cs * w) (concat cs @ c @ rest)) = c"
    using snoc.prems len by simp
  ultimately show ?case
    by (simp add: chunks_def)
qed


lemma le_word_to_le_64: "(le_word (to_le 8 (e :: u64)) :: u64) = e"
  by (simp add: le_word_to_le take_bit_word_eq_self)

lemma read_array_entries_64:
  "read_array 8 (length es) (concat (map (to_le 8) es)) = (es :: u64 list)"
proof -
  have "chunks 8 (length (map (to_le 8) es)) (concat (map (to_le 8) es) @ [])
          = map (to_le 8) es"
    by (rule chunks_concat) auto
  then have "chunks 8 (length es) (concat (map (to_le 8) es)) = map (to_le 8) es"
    by simp
  moreover have "length (concat (map (to_le 8) es)) = 8 * length es"
    by (induction es) simp_all
  ultimately show ?thesis
    by (simp add: read_array_def pad_def le_word_to_le_64 map_idI comp_def)
qed

lemma copy_entries_32:
  assumes "list_all (\<lambda>e. take_bit 32 e = e) (es :: u64 list)"
  shows "map (\<lambda>e. ucast (le_word e :: u32)) (chunks 4 (length es) (concat (map (to_le 4) es)))
           = es"
proof -
  have "chunks 4 (length (map (to_le 4) es)) (concat (map (to_le 4) es) @ [])
          = map (to_le 4) es"
    by (rule chunks_concat) auto
  then have c: "chunks 4 (length es) (concat (map (to_le 4) es)) = map (to_le 4) es"
    by simp
  have one: "ucast (le_word (to_le 4 e) :: u32) = e" if "take_bit 32 e = e" for e :: u64
  proof -
    have "(ucast (le_word (to_le 4 e) :: u32) :: u64) = ucast (ucast (take_bit 32 e) :: u32)"
      by (simp add: le_word_to_le)
    also have "\<dots> = take_bit 32 e"
      by (rule bit_word_eqI) (auto simp: bit_simps)
    finally show ?thesis using that by simp
  qed
  show ?thesis
    using assms by (simp add: c list_all_iff one map_idI)
qed


lemma read_section_entries:
  assumes good: "\<not> stream_fail (binary_file st)"
    and holds: "section_holds st sh w es"
  shows "file_read (sh_size sh) (file_seekg (sh_offset sh) st)
    = (concat (map (to_le w) es),
       st\<lparr>binary_file := completed_read (unat (sh_offset sh)) (w * length es) (binary_file st)\<rparr>)"
proof -
  have off: "\<not> 0x8000000000000000 \<le> sh_offset sh" and sz: "\<not> 0x8000000000000000 \<le> sh_size sh"
    and n: "unat (sh_size sh) = w * length es"
    and bytes: "take (w * length es) (drop (unat (sh_offset sh)) (stream_bytes (binary_file st)))
                  = concat (map (to_le w) es)"
    using holds by (simp_all add: section_holds_def file_bytes_at_def not_le)
  have len: "length (concat (map (to_le w) es)) = w * length es"
    by (induction es) simp_all
  show ?thesis
    using good off sz
    by (simp add: file_read_def file_seekg_def seekg_def stream_read_def Let_def n bytes len
        completed_read_def)
qed

lemma after_read_simps [simp]:
  "stream_fail (completed_read p n s) = False"
  "stream_open (completed_read p n s) = stream_open s"
  "stream_bytes (completed_read p n s) = stream_bytes s"
  by (simp_all add: completed_read_def)

lemma section_holds_cong:
  "stream_bytes (binary_file st') = stream_bytes (binary_file st)
     \<Longrightarrow> section_holds st' sh w es = section_holds st sh w es"
  by (simp add: section_holds_def file_bytes_at_def)

lemma find_section_cong:
  "section_header_string_table st' = section_header_string_table st
     \<Longrightarrow> section_headers st' = section_headers st
     \<Longrightarrow> find_section st' name = find_section st name"
  by (simp add: find_section_def)

lemma read_preinit_array_holds:
  assumes good: "\<not> stream_fail (binary_file st)"
    and w: "w = (if is_64_bit st then 8 else 4)"
    and found: "find_section st ''.preinit_array'' = Returns (Some sh)"
    and holds: "section_holds st sh w es"
  shows "read_preinit_array st = Returns (True,
           st\<lparr>binary_file := completed_read (unat (sh_offset sh)) (w * length es) (binary_file st),
              init_functions := es\<rparr>)"
proof (cases "is_64_bit st")
  case True
  then have w8: "w = 8" using w by simp
  have n: "unat (sh_size sh) = 8 * length es" using holds w8 by (simp add: section_holds_def)
  have len: "length (concat (map (to_le 8) es)) = 8 * length es"
    by (induction es) simp_all
  show ?thesis
    unfolding read_preinit_array_def
    using True read_section_entries[OF good holds] read_array_entries_64[of es]
    by (simp add: found bind_outcome_def n w8 Let_def len read_array_def)
next
  case False
  then have w4: "w = 4" using w by simp
  have n: "unat (sh_size sh) = 4 * length es" using holds w4 by (simp add: section_holds_def)
  have fits: "list_all (\<lambda>e. take_bit 32 e = e) es"
    using holds w4 by (simp add: section_holds_def)
  have len: "length (concat (map (to_le 4) es)) = 4 * length es"
    by (induction es) simp_all
  show ?thesis
    unfolding read_preinit_array_def
    using False read_section_entries[OF good holds] copy_entries_32[OF fits]
    by (simp add: found bind_outcome_def n w4 Let_def len)
qed


lemma read_init_array_holds:
  assumes good: "\<not> stream_fail (binary_file st)"
    and w: "w = (if is_64_bit st then 8 else 4)"
    and found: "find_section st ''.init_array'' = Returns (Some sh)"
    and holds: "section_holds st sh w es"
  shows "read_init_array st = Returns (True,
           st\<lparr>binary_file := completed_read (unat (sh_offset sh)) (w * length es) (binary_file st),
              init_functions := init_functions st @ es\<rparr>)"
proof (cases "is_64_bit st")
  case True
  then have w8: "w = 8" using w by simp
  have n: "unat (sh_size sh) = 8 * length es" using holds w8 by (simp add: section_holds_def)
  have len: "length (concat (map (to_le 8) es)) = 8 * length es"
    by (induction es) simp_all
  show ?thesis
    unfolding read_init_array_def
    using True read_section_entries[OF good holds] read_array_entries_64[of es]
    by (simp add: found bind_outcome_def n w8 Let_def len read_array_def)
next
  case False
  then have w4: "w = 4" using w by simp
  have n: "unat (sh_size sh) = 4 * length es" using holds w4 by (simp add: section_holds_def)
  have fits: "list_all (\<lambda>e. take_bit 32 e = e) es"
    using holds w4 by (simp add: section_holds_def)
  have len: "length (concat (map (to_le 4) es)) = 4 * length es"
    by (induction es) simp_all
  show ?thesis
    unfolding read_init_array_def
    using False read_section_entries[OF good holds] copy_entries_32[OF fits]
    by (simp add: found bind_outcome_def n w4 Let_def len)
qed

lemma read_fini_array_holds:
  assumes good: "\<not> stream_fail (binary_file st)"
    and fresh: "fini_functions st = []"
    and w: "w = (if is_64_bit st then 8 else 4)"
    and found: "find_section st ''.fini_array'' = Returns (Some sh)"
    and holds: "section_holds st sh w es"
  shows "read_fini_array st = Returns (True,
           st\<lparr>binary_file := completed_read (unat (sh_offset sh)) (w * length es) (binary_file st),
              fini_functions := rev es\<rparr>)"
proof (cases "is_64_bit st")
  case True
  then have w8: "w = 8" using w by simp
  have n: "unat (sh_size sh) = 8 * length es" using holds w8 by (simp add: section_holds_def)
  have len: "length (concat (map (to_le 8) es)) = 8 * length es"
    by (induction es) simp_all
  show ?thesis
    unfolding read_fini_array_def
    using True read_section_entries[OF good holds] read_array_entries_64[of es]
    by (simp add: found bind_outcome_def n w8 Let_def len read_array_def)
next
  case False
  then have w4: "w = 4" using w by simp
  have n: "unat (sh_size sh) = 4 * length es" using holds w4 by (simp add: section_holds_def)
  have fits: "list_all (\<lambda>e. take_bit 32 e = e) es"
    using holds w4 by (simp add: section_holds_def)
  have len: "length (concat (map (to_le 4) es)) = 4 * length es"
    by (induction es) simp_all
  show ?thesis
    unfolding read_fini_array_def
    using False read_section_entries[OF good holds] copy_entries_32[OF fits]
    by (simp add: found bind_outcome_def n w4 Let_def len fresh)
qed

text \<open>
  C3.  The object has its section headers read, its stream is good and its two lists
  are still empty; \<open>w\<close> is the width of an address of the file (8 or 4 bytes).  When
  the file holds a pre-init array with the entry \<open>a\<close>, an init section at the address
  \<open>b\<close>, an init array with the entries \<open>c\<close>, \<open>d\<close>, a fini array with the entries
  \<open>x\<close>, \<open>y\<close> and a fini section at the address \<open>z\<close>, then \<^verbatim>\<open>read_init_functions\<close>
  returns true with the initializer list \<open>[a, b, c, d]\<close>, and \<^verbatim>\<open>read_term_functions\<close>
  after it returns true with the terminator list \<open>[y, x, z]\<close>.
\<close>

theorem lifecycle_lists_order:
  assumes opened: "stream_open (binary_file st)"
    and good: "\<not> stream_fail (binary_file st)"
    and fresh: "init_functions st = []" "fini_functions st = []"
    and w: "w = (if is_64_bit st then 8 else 4)"
    and preinit_array: "find_section st ''.preinit_array'' = Returns (Some preinit_array_section)"
      "section_holds st preinit_array_section w [a]"
    and init: "find_section st ''.init'' = Returns (Some init_section)"
      "sh_addr init_section = b"
    and init_array: "find_section st ''.init_array'' = Returns (Some init_array_section)"
      "section_holds st init_array_section w [c, d]"
    and fini_array: "find_section st ''.fini_array'' = Returns (Some fini_array_section)"
      "section_holds st fini_array_section w [x, y]"
    and fini: "find_section st ''.fini'' = Returns (Some fini_section)"
      "sh_addr fini_section = z"
  shows "\<exists>st1 st2.
           read_init_functions st = Returns (True, st1) \<and> init_functions st1 = [a, b, c, d]
           \<and> read_term_functions st1 = Returns (True, st2) \<and> fini_functions st2 = [y, x, z]
           \<and> init_functions st2 = [a, b, c, d]"
proof -
  define s1 where "s1 = st\<lparr>binary_file :=
      completed_read (unat (sh_offset preinit_array_section)) (w * length [a]) (binary_file st),
      init_functions := [a]\<rparr>"
  have r1: "read_preinit_array st = Returns (True, s1)"
    unfolding s1_def by (rule read_preinit_array_holds[OF good w preinit_array])
  define s2 where "s2 = s1\<lparr>init_functions := [a, b]\<rparr>"
  have f2: "find_section s1 ''.init'' = Returns (Some init_section)"
    using init(1) by (simp add: s1_def find_section_def)
  have i1: "init_functions s1 = [a]"
    by (simp add: s1_def)
  have r2: "append_init_section s1 = Returns (True, s2)"
    by (simp add: append_init_section_def f2 bind_outcome_def s2_def init(2) i1)
  have g2: "\<not> stream_fail (binary_file s2)" "is_64_bit s2 = is_64_bit st"
    by (simp_all add: s2_def s1_def is_64_bit_def)
  have w2: "w = (if is_64_bit s2 then 8 else 4)" using w g2 by simp
  have f3: "find_section s2 ''.init_array'' = Returns (Some init_array_section)"
    using init_array(1) by (simp add: s2_def s1_def find_section_def)
  have h3: "section_holds s2 init_array_section w [c, d]"
    using init_array(2) by (simp add: s2_def s1_def section_holds_def file_bytes_at_def)
  define s3 where "s3 = s2\<lparr>binary_file :=
      completed_read (unat (sh_offset init_array_section)) (w * length [c, d]) (binary_file s2),
      init_functions := init_functions s2 @ [c, d]\<rparr>"
  have r3: "read_init_array s2 = Returns (True, s3)"
    unfolding s3_def by (rule read_init_array_holds[OF g2(1) w2 f3 h3])
  have i3: "init_functions s3 = [a, b, c, d]"
    by (simp add: s3_def s2_def)
  have init_run: "read_init_functions st = Returns (True, s3)"
    using opened by (simp add: read_init_functions_def and_then_def bind_outcome_def r1 r2 r3)
  have g3: "\<not> stream_fail (binary_file s3)" "is_64_bit s3 = is_64_bit st"
    "fini_functions s3 = []"
    using fresh(2) by (simp_all add: s3_def s2_def s1_def is_64_bit_def)
  have w3: "w = (if is_64_bit s3 then 8 else 4)" using w g3 by simp
  have f4: "find_section s3 ''.fini_array'' = Returns (Some fini_array_section)"
    using fini_array(1) by (simp add: s3_def s2_def s1_def find_section_def)
  have h4: "section_holds s3 fini_array_section w [x, y]"
    using fini_array(2) by (simp add: s3_def s2_def s1_def section_holds_def file_bytes_at_def)
  define s4 where "s4 = s3\<lparr>binary_file :=
      completed_read (unat (sh_offset fini_array_section)) (w * length [x, y]) (binary_file s3),
      fini_functions := rev [x, y]\<rparr>"
  have r4: "read_fini_array s3 = Returns (True, s4)"
    unfolding s4_def by (rule read_fini_array_holds[OF g3(1) g3(3) w3 f4 h4])
  have f5: "find_section s4 ''.fini'' = Returns (Some fini_section)"
    using fini(1) by (simp add: s4_def s3_def s2_def s1_def find_section_def)
  define s5 where "s5 = s4\<lparr>fini_functions := [y, x, z]\<rparr>"
  have i4: "fini_functions s4 = [y, x]"
    by (simp add: s4_def)
  have r5: "append_fini_section s4 = Returns (True, s5)"
    by (simp add: append_fini_section_def f5 bind_outcome_def s5_def fini(2) i4)
  have term_run: "read_term_functions s3 = Returns (True, s5)"
    by (simp add: read_term_functions_def and_then_def bind_outcome_def r4 r5)
  have "fini_functions s5 = [y, x, z]" "init_functions s5 = [a, b, c, d]"
    using i3 by (simp_all add: s5_def s4_def)
  then show ?thesis
    using init_run i3 term_run by blast
qed

theorem lifecycle_lists_order_witness:
  "outcome_map (\<lambda>r. init_functions (snd r)) (read_init_functions (example_sections_64))
     = Returns [0x1100, 0x1000, 0x1200, 0x1300]
   \<and> outcome_map (\<lambda>r. fini_functions (snd r))
        (and_then (read_init_functions (example_sections_64)) read_term_functions)
     = Returns [0x1500, 0x1400, 0x2000]
   \<and> outcome_map (\<lambda>r. init_functions (snd r)) (read_init_functions (example_sections_32))
     = Returns [0x1100, 0x1000, 0x1200, 0x1300]
   \<and> outcome_map (\<lambda>r. fini_functions (snd r))
        (and_then (read_init_functions (example_sections_32)) read_term_functions)
     = Returns [0x1500, 0x1400, 0x2000]"
proof -
  let ?s = "example_sections_64"
  let ?t = "example_sections_32"
  have s: "stream_open (binary_file ?s)" "\<not> stream_fail (binary_file ?s)"
      "init_functions ?s = []" "fini_functions ?s = []"
      "8 = (if is_64_bit ?s then 8 else 4 :: nat)"
      "find_section ?s ''.preinit_array'' = Returns (Some (section_headers ?s ! 2))"
      "section_holds ?s (section_headers ?s ! 2) 8 [0x1100]"
      "find_section ?s ''.init'' = Returns (Some (section_headers ?s ! 3))"
      "sh_addr (section_headers ?s ! 3) = 0x1000"
      "find_section ?s ''.init_array'' = Returns (Some (section_headers ?s ! 4))"
      "section_holds ?s (section_headers ?s ! 4) 8 [0x1200, 0x1300]"
      "find_section ?s ''.fini_array'' = Returns (Some (section_headers ?s ! 5))"
      "section_holds ?s (section_headers ?s ! 5) 8 [0x1400, 0x1500]"
      "find_section ?s ''.fini'' = Returns (Some (section_headers ?s ! 6))"
      "sh_addr (section_headers ?s ! 6) = 0x2000"
    by code_simp+
  have t: "stream_open (binary_file ?t)" "\<not> stream_fail (binary_file ?t)"
      "init_functions ?t = []" "fini_functions ?t = []"
      "4 = (if is_64_bit ?t then 8 else 4 :: nat)"
      "find_section ?t ''.preinit_array'' = Returns (Some (section_headers ?t ! 2))"
      "section_holds ?t (section_headers ?t ! 2) 4 [0x1100]"
      "find_section ?t ''.init'' = Returns (Some (section_headers ?t ! 3))"
      "sh_addr (section_headers ?t ! 3) = 0x1000"
      "find_section ?t ''.init_array'' = Returns (Some (section_headers ?t ! 4))"
      "section_holds ?t (section_headers ?t ! 4) 4 [0x1200, 0x1300]"
      "find_section ?t ''.fini_array'' = Returns (Some (section_headers ?t ! 5))"
      "section_holds ?t (section_headers ?t ! 5) 4 [0x1400, 0x1500]"
      "find_section ?t ''.fini'' = Returns (Some (section_headers ?t ! 6))"
      "sh_addr (section_headers ?t ! 6) = 0x2000"
    by code_simp+
  from lifecycle_lists_order[OF s] obtain s1 s2 where
    s12: "read_init_functions ?s = Returns (True, s1)" "init_functions s1 = [0x1100, 0x1000, 0x1200, 0x1300]"
      "read_term_functions s1 = Returns (True, s2)" "fini_functions s2 = [0x1500, 0x1400, 0x2000]"
    by blast
  from lifecycle_lists_order[OF t] obtain t1 t2 where
    t12: "read_init_functions ?t = Returns (True, t1)" "init_functions t1 = [0x1100, 0x1000, 0x1200, 0x1300]"
      "read_term_functions t1 = Returns (True, t2)" "fini_functions t2 = [0x1500, 0x1400, 0x2000]"
    by blast
  show ?thesis
    by (simp add: s12 t12 outcome_map_def bind_outcome_def and_then_def)
qed

section \<open>Properties of the dynamic segment\<close>











end
